theory Spec2Isabelle
  imports Main
begin

section \<open>Persistence schema\<close>

text \<open>
  The two tables of the schema file. A \<^verbatim>\<open>column.text()\<close> is a \<open>string\<close>, a column declared
  \<^verbatim>\<open>optional: true\<close> is a \<open>string option\<close> (\<open>None\<close> is SQL NULL), a \<^verbatim>\<open>column.date\<close> is
  the instant in milliseconds, a \<^verbatim>\<open>column.boolean\<close> is a \<open>bool\<close>. A table is the list of
  its rows in insertion order, each row as a read gives it back; a \<^verbatim>\<open>select\<close> returns rows
  in that order.
\<close>

type_synonym date = int

record session_row =
  sess_id :: string
  sess_userId :: string
  sess_language :: "string option"
  sess_context :: "string option"
  sess_originalText :: string
  sess_createdAt :: date
  sess_updatedAt :: date

record variant_row =
  var_id :: string
  var_sessionId :: string
  var_tone :: "string option"
  var_complexity :: "string option"
  var_variantLabel :: "string option"
  var_content :: string
  var_isFavorite :: bool
  var_createdAt :: date

record store =
  RephraseSessions :: "session_row list"
  RephraseVariants :: "variant_row list"

definition empty_store :: store where
  "empty_store = \<lparr>RephraseSessions = [], RephraseVariants = []\<rparr>"

section \<open>Errors and results\<close>

text \<open>
  \<open>ActionError\<close> is the error the handlers throw, with its code and message.
  \<open>ActionInputError\<close> is what \<^verbatim>\<open>defineAction\<close> throws when the \<^verbatim>\<open>input\<close> schema rejects
  the call's argument; it carries the schema's issues. \<open>UniqueConstraintError\<close> is the
  storage failure of an insert whose \<^verbatim>\<open>primaryKey\<close> is already in the table.
\<close>

datatype error_code = UNAUTHORIZED | NOT_FOUND

datatype zod_issue =
    invalid_type "string list"
  | too_small "string list"
  | custom string

datatype action_error =
    ActionError error_code string
  | ActionInputError "zod_issue list"
  | UniqueConstraintError

text \<open>
  The \<^verbatim>\<open>data\<close> of a successful result \<^verbatim>\<open>{ success: true, data }\<close>. A record destructured from
  \<^verbatim>\<open>.returning()\<close> is \<^verbatim>\<open>undefined\<close> when no row was returned, hence the \<open>option\<close>.
  \<open>NoData\<close> is the bare \<^verbatim>\<open>{ success: true }\<close> of deleteVariant.
\<close>

datatype action_data =
    SessionData "session_row option"
  | VariantData "variant_row option"
  | SessionItems "session_row list" nat
  | VariantItems "variant_row list" nat
  | NoData

type_synonym action_result = "(action_error + action_data) \<times> store"

section \<open>Request context and environment\<close>

record User =
  user_id :: string

record Locals =
  locals_user :: "User option"

record ActionAPIContext =
  context_locals :: "Locals option"

text \<open>
  What a handler reads from outside: the value of \<^verbatim>\<open>crypto.randomUUID()\<close> and of
  \<^verbatim>\<open>new Date()\<close>; every handler evaluates each at most once.
\<close>

record env =
  randomUUID :: string
  now :: date

section \<open>Input values and their schemas\<close>

text \<open>
  The argument of a call before validation: a JSON value, or \<open>JUndefined\<close> for no
  argument and for a property an object does not have.
\<close>

datatype json =
    JUndefined
  | JNull
  | JBoolean bool
  | JNumber int
  | JString string
  | JArray "json list"
  | JObject "(string \<times> json) list"

definition property :: "(string \<times> json) list \<Rightarrow> string \<Rightarrow> json" where
  "property fs k = (case map_of fs k of None \<Rightarrow> JUndefined | Some v \<Rightarrow> v)"

text \<open>
  What a schema's parser returns: the issues it raised and the parsed value. The value is
  \<open>None\<close> when the parse was aborted (a value of the wrong type); a check that fails on a
  value of the right type raises its issue and keeps the value. \<^verbatim>\<open>safeParse\<close> succeeds only
  when no issue was raised.
\<close>

type_synonym 'a parse_return = "zod_issue list \<times> 'a option"

type_synonym 'a parsed = "zod_issue list + 'a"

definition safeParse :: "'a parse_return \<Rightarrow> 'a parsed" where
  "safeParse r = (case r of ([], Some v) \<Rightarrow> Inr v | (iss, _) \<Rightarrow> Inl iss)"

definition issues :: "'a parsed \<Rightarrow> zod_issue list" where
  "issues r = (case r of Inl iss \<Rightarrow> iss | Inr _ \<Rightarrow> [])"

definition aborted :: "'a parse_return \<Rightarrow> bool" where
  "aborted r = (case snd r of None \<Rightarrow> True | Some _ \<Rightarrow> False)"

definition parsed_value :: "'a parse_return \<Rightarrow> 'a" where
  "parsed_value r = the (snd r)"

definition z_string :: "string list \<Rightarrow> json \<Rightarrow> string parse_return" where
  "z_string path v = (case v of JString s \<Rightarrow> ([], Some s) | _ \<Rightarrow> ([invalid_type path], None))"

definition z_string_min :: "nat \<Rightarrow> string list \<Rightarrow> json \<Rightarrow> string parse_return" where
  "z_string_min n path v =
     (case v of
        JString s \<Rightarrow> (if length s < n then [too_small path] else [], Some s)
      | _ \<Rightarrow> ([invalid_type path], None))"

definition z_boolean :: "string list \<Rightarrow> json \<Rightarrow> bool parse_return" where
  "z_boolean path v = (case v of JBoolean b \<Rightarrow> ([], Some b) | _ \<Rightarrow> ([invalid_type path], None))"

definition z_optional ::
  "(string list \<Rightarrow> json \<Rightarrow> 'a parse_return) \<Rightarrow> string list \<Rightarrow> json \<Rightarrow> 'a option parse_return"
  where
  "z_optional inner path v =
     (case v of
        JUndefined \<Rightarrow> ([], Some None)
      | _ \<Rightarrow> (case inner path v of (iss, x) \<Rightarrow> (iss, map_option Some x)))"

definition z_default ::
  "'a \<Rightarrow> (string list \<Rightarrow> json \<Rightarrow> 'a parse_return) \<Rightarrow> string list \<Rightarrow> json \<Rightarrow> 'a parse_return"
  where
  "z_default d inner path v = (case v of JUndefined \<Rightarrow> ([], Some d) | _ \<Rightarrow> inner path v)"

text \<open>
  \<^verbatim>\<open>.refine(check, { message })\<close>: skipped when the parse below was aborted; otherwise the
  check runs on the value and raises a \<open>custom\<close> issue with the message when it fails.
\<close>

definition z_refine :: "('a \<Rightarrow> bool) \<Rightarrow> string \<Rightarrow> 'a parse_return \<Rightarrow> 'a parse_return" where
  "z_refine check message r =
     (case r of
        (iss, None) \<Rightarrow> (iss, None)
      | (iss, Some v) \<Rightarrow> (if check v then iss else iss @ [custom message], Some v))"

text \<open>\<open>is_defined v\<close> is the test \<^verbatim>\<open>v !== undefined\<close> on an optional property.\<close>

definition is_defined :: "'a option \<Rightarrow> bool" where
  "is_defined v = (case v of None \<Rightarrow> False | Some _ \<Rightarrow> True)"

definition refine_message :: string where
  "refine_message = ''At least one field must be provided to update.''"

text \<open>
  Each \<^verbatim>\<open>z.object\<close> parses every property of its shape, in the order of the shape, collects
  all their issues, and is aborted when one of them is; properties outside the shape are
  dropped.
\<close>

record createSession_input =
  cs_language :: "string option"
  cs_context :: "string option"
  cs_originalText :: string

definition createSession_object :: "json \<Rightarrow> createSession_input parse_return" where
  "createSession_object raw =
     (case raw of
        JObject fs \<Rightarrow>
          (let language = z_optional z_string [''language''] (property fs ''language'');
               context = z_optional z_string [''context''] (property fs ''context'');
               originalText = z_string_min 1 [''originalText''] (property fs ''originalText'')
           in (fst language @ fst context @ fst originalText,
               if aborted language \<or> aborted context \<or> aborted originalText then None
               else Some \<lparr>cs_language = parsed_value language, cs_context = parsed_value context,
                          cs_originalText = parsed_value originalText\<rparr>))
      | _ \<Rightarrow> ([invalid_type []], None))"

definition createSession_schema :: "json \<Rightarrow> createSession_input parsed" where
  "createSession_schema raw = safeParse (createSession_object raw)"

record updateSession_input =
  us_id :: string
  us_language :: "string option"
  us_context :: "string option"
  us_originalText :: "string option"

definition updateSession_object :: "json \<Rightarrow> updateSession_input parse_return" where
  "updateSession_object raw =
     (case raw of
        JObject fs \<Rightarrow>
          (let id = z_string_min 1 [''id''] (property fs ''id'');
               language = z_optional z_string [''language''] (property fs ''language'');
               context = z_optional z_string [''context''] (property fs ''context'');
               originalText = z_optional z_string [''originalText''] (property fs ''originalText'')
           in (fst id @ fst language @ fst context @ fst originalText,
               if aborted id \<or> aborted language \<or> aborted context \<or> aborted originalText
               then None
               else Some \<lparr>us_id = parsed_value id, us_language = parsed_value language,
                          us_context = parsed_value context,
                          us_originalText = parsed_value originalText\<rparr>))
      | _ \<Rightarrow> ([invalid_type []], None))"

definition updateSession_schema :: "json \<Rightarrow> updateSession_input parsed" where
  "updateSession_schema raw =
     safeParse
       (z_refine
          (\<lambda>input. is_defined (us_language input) \<or> is_defined (us_context input)
                    \<or> is_defined (us_originalText input))
          refine_message
          (updateSession_object raw))"

definition listSessions_schema :: "json \<Rightarrow> unit parsed" where
  "listSessions_schema raw =
     safeParse
       (case raw of
          JUndefined \<Rightarrow> ([], Some ())
        | JObject fs \<Rightarrow> ([], Some ())
        | _ \<Rightarrow> ([invalid_type []], None))"

record createVariant_input =
  cv_sessionId :: string
  cv_tone :: "string option"
  cv_complexity :: "string option"
  cv_variantLabel :: "string option"
  cv_content :: string
  cv_isFavorite :: "bool option"

definition createVariant_object :: "json \<Rightarrow> createVariant_input parse_return" where
  "createVariant_object raw =
     (case raw of
        JObject fs \<Rightarrow>
          (let sessionId = z_string_min 1 [''sessionId''] (property fs ''sessionId'');
               tone = z_optional z_string [''tone''] (property fs ''tone'');
               complexity = z_optional z_string [''complexity''] (property fs ''complexity'');
               variantLabel = z_optional z_string [''variantLabel''] (property fs ''variantLabel'');
               content = z_string_min 1 [''content''] (property fs ''content'');
               isFavorite = z_optional z_boolean [''isFavorite''] (property fs ''isFavorite'')
           in (fst sessionId @ fst tone @ fst complexity @ fst variantLabel @ fst content
                 @ fst isFavorite,
               if aborted sessionId \<or> aborted tone \<or> aborted complexity \<or> aborted variantLabel
                  \<or> aborted content \<or> aborted isFavorite
               then None
               else Some \<lparr>cv_sessionId = parsed_value sessionId, cv_tone = parsed_value tone,
                          cv_complexity = parsed_value complexity,
                          cv_variantLabel = parsed_value variantLabel,
                          cv_content = parsed_value content,
                          cv_isFavorite = parsed_value isFavorite\<rparr>))
      | _ \<Rightarrow> ([invalid_type []], None))"

definition createVariant_schema :: "json \<Rightarrow> createVariant_input parsed" where
  "createVariant_schema raw = safeParse (createVariant_object raw)"

record updateVariant_input =
  uv_id :: string
  uv_sessionId :: string
  uv_tone :: "string option"
  uv_complexity :: "string option"
  uv_variantLabel :: "string option"
  uv_content :: "string option"
  uv_isFavorite :: "bool option"

definition updateVariant_object :: "json \<Rightarrow> updateVariant_input parse_return" where
  "updateVariant_object raw =
     (case raw of
        JObject fs \<Rightarrow>
          (let id = z_string_min 1 [''id''] (property fs ''id'');
               sessionId = z_string_min 1 [''sessionId''] (property fs ''sessionId'');
               tone = z_optional z_string [''tone''] (property fs ''tone'');
               complexity = z_optional z_string [''complexity''] (property fs ''complexity'');
               variantLabel = z_optional z_string [''variantLabel''] (property fs ''variantLabel'');
               content = z_optional z_string [''content''] (property fs ''content'');
               isFavorite = z_optional z_boolean [''isFavorite''] (property fs ''isFavorite'')
           in (fst id @ fst sessionId @ fst tone @ fst complexity @ fst variantLabel
                 @ fst content @ fst isFavorite,
               if aborted id \<or> aborted sessionId \<or> aborted tone \<or> aborted complexity
                  \<or> aborted variantLabel \<or> aborted content \<or> aborted isFavorite
               then None
               else Some \<lparr>uv_id = parsed_value id, uv_sessionId = parsed_value sessionId,
                          uv_tone = parsed_value tone, uv_complexity = parsed_value complexity,
                          uv_variantLabel = parsed_value variantLabel,
                          uv_content = parsed_value content,
                          uv_isFavorite = parsed_value isFavorite\<rparr>))
      | _ \<Rightarrow> ([invalid_type []], None))"

definition updateVariant_schema :: "json \<Rightarrow> updateVariant_input parsed" where
  "updateVariant_schema raw =
     safeParse
       (z_refine
          (\<lambda>input. is_defined (uv_tone input) \<or> is_defined (uv_complexity input)
                    \<or> is_defined (uv_variantLabel input) \<or> is_defined (uv_content input)
                    \<or> is_defined (uv_isFavorite input))
          refine_message
          (updateVariant_object raw))"

record deleteVariant_input =
  dv_id :: string
  dv_sessionId :: string

definition deleteVariant_object :: "json \<Rightarrow> deleteVariant_input parse_return" where
  "deleteVariant_object raw =
     (case raw of
        JObject fs \<Rightarrow>
          (let id = z_string_min 1 [''id''] (property fs ''id'');
               sessionId = z_string_min 1 [''sessionId''] (property fs ''sessionId'')
           in (fst id @ fst sessionId,
               if aborted id \<or> aborted sessionId then None
               else Some \<lparr>dv_id = parsed_value id, dv_sessionId = parsed_value sessionId\<rparr>))
      | _ \<Rightarrow> ([invalid_type []], None))"

definition deleteVariant_schema :: "json \<Rightarrow> deleteVariant_input parsed" where
  "deleteVariant_schema raw = safeParse (deleteVariant_object raw)"

record listVariants_input =
  lv_sessionId :: string
  lv_favoritesOnly :: bool

definition listVariants_object :: "json \<Rightarrow> listVariants_input parse_return" where
  "listVariants_object raw =
     (case raw of
        JObject fs \<Rightarrow>
          (let sessionId = z_string_min 1 [''sessionId''] (property fs ''sessionId'');
               favoritesOnly =
                 z_default False z_boolean [''favoritesOnly''] (property fs ''favoritesOnly'')
           in (fst sessionId @ fst favoritesOnly,
               if aborted sessionId \<or> aborted favoritesOnly then None
               else Some \<lparr>lv_sessionId = parsed_value sessionId,
                          lv_favoritesOnly = parsed_value favoritesOnly\<rparr>))
      | _ \<Rightarrow> ([invalid_type []], None))"

definition listVariants_schema :: "json \<Rightarrow> listVariants_input parsed" where
  "listVariants_schema raw = safeParse (listVariants_object raw)"

section \<open>Statements on a table\<close>

text \<open>
  \<open>first\<close> is the destructuring \<^verbatim>\<open>const [x] = rows\<close>. \<open>db_insert\<close> refuses a row whose
  primary key is in the table; otherwise it appends the row, and what \<^verbatim>\<open>.returning()\<close>
  gives is the store's read-back of the new row, not the values handed in. \<open>db_update\<close>
  rewrites the rows its \<^verbatim>\<open>where\<close> selects, in place, and returns them as rewritten.
  \<open>db_delete\<close> removes the rows its \<^verbatim>\<open>where\<close> selects and counts them. The reference
  from a variant's \<open>sessionId\<close> to the sessions table needs no check of its own: a variant
  is inserted only after its session was found, and no operation deletes a session.
\<close>

definition first :: "'a list \<Rightarrow> 'a option" where
  "first rows = (case rows of [] \<Rightarrow> None | x # _ \<Rightarrow> Some x)"

definition db_select :: "('r \<Rightarrow> bool) \<Rightarrow> 'r list \<Rightarrow> 'r list" where
  "db_select wh rows = filter wh rows"

text \<open>
  The store reads a text value back only up to its first NUL character. This shows on the
  free text of an inserted row: \<open>language\<close>, \<open>context\<close>, \<open>originalText\<close> of a session and
  \<open>tone\<close>, \<open>complexity\<close>, \<open>variantLabel\<close>, \<open>content\<close> of a variant. The key columns hold
  identifiers (a generated UUID, the id of the signed-in user, a session id that matched a
  stored one) and are taken as written.
\<close>

definition read_text :: "string \<Rightarrow> string" where
  "read_text s = takeWhile (\<lambda>c. c \<noteq> CHR 0x00) s"

definition session_readback :: "session_row \<Rightarrow> session_row" where
  "session_readback r =
     r\<lparr>sess_language := map_option read_text (sess_language r),
       sess_context := map_option read_text (sess_context r),
       sess_originalText := read_text (sess_originalText r)\<rparr>"

definition variant_readback :: "variant_row \<Rightarrow> variant_row" where
  "variant_readback r =
     r\<lparr>var_tone := map_option read_text (var_tone r),
       var_complexity := map_option read_text (var_complexity r),
       var_variantLabel := map_option read_text (var_variantLabel r),
       var_content := read_text (var_content r)\<rparr>"

definition db_insert ::
  "('r \<Rightarrow> string) \<Rightarrow> ('r \<Rightarrow> 'r) \<Rightarrow> 'r \<Rightarrow> 'r list \<Rightarrow> action_error + ('r list \<times> 'r list)"
  where
  "db_insert pk readback row rows =
     (if pk row \<in> set (map pk rows) then Inl UniqueConstraintError
      else Inr (rows @ [readback row], [readback row]))"

definition db_update :: "('r \<Rightarrow> 'r) \<Rightarrow> ('r \<Rightarrow> bool) \<Rightarrow> 'r list \<Rightarrow> 'r list \<times> 'r list" where
  "db_update setf wh rows = (map (\<lambda>r. if wh r then setf r else r) rows, map setf (filter wh rows))"

definition db_delete :: "('r \<Rightarrow> bool) \<Rightarrow> 'r list \<Rightarrow> 'r list \<times> nat" where
  "db_delete wh rows = (filter (\<lambda>r. \<not> wh r) rows, length (filter wh rows))"

section \<open>The actions\<close>

definition requireUser :: "ActionAPIContext \<Rightarrow> action_error + User" where
  "requireUser context =
     (let locals = context_locals context;
          user = (case locals of None \<Rightarrow> None | Some l \<Rightarrow> locals_user l)
      in case user of
           None \<Rightarrow> Inl (ActionError UNAUTHORIZED ''You must be signed in to perform this action.'')
         | Some u \<Rightarrow> Inr u)"

definition getOwnedSession :: "string \<Rightarrow> string \<Rightarrow> store \<Rightarrow> action_error + session_row" where
  "getOwnedSession sessionId userId st =
     (case first (db_select (\<lambda>r. sess_id r = sessionId \<and> sess_userId r = userId)
                   (RephraseSessions st)) of
        None \<Rightarrow> Inl (ActionError NOT_FOUND ''Rephrase session not found.'')
      | Some session \<Rightarrow> Inr session)"

definition createSession_handler ::
  "createSession_input \<Rightarrow> ActionAPIContext \<Rightarrow> env \<Rightarrow> store \<Rightarrow> action_result" where
  "createSession_handler input context e st =
     (case requireUser context of
        Inl err \<Rightarrow> (Inl err, st)
      | Inr user \<Rightarrow>
          (let now' = now e in
           case db_insert sess_id session_readback
                  \<lparr>sess_id = randomUUID e, sess_userId = user_id user,
                   sess_language = cs_language input, sess_context = cs_context input,
                   sess_originalText = cs_originalText input,
                   sess_createdAt = now', sess_updatedAt = now'\<rparr>
                  (RephraseSessions st) of
             Inl err \<Rightarrow> (Inl err, st)
           | Inr (rows, returning) \<Rightarrow>
               (Inr (SessionData (first returning)), st\<lparr>RephraseSessions := rows\<rparr>)))"

definition updateSession_set :: "updateSession_input \<Rightarrow> date \<Rightarrow> session_row \<Rightarrow> session_row" where
  "updateSession_set input d r =
     (let r1 = (case us_language input of None \<Rightarrow> r | Some v \<Rightarrow> r\<lparr>sess_language := Some v\<rparr>);
          r2 = (case us_context input of None \<Rightarrow> r1 | Some v \<Rightarrow> r1\<lparr>sess_context := Some v\<rparr>);
          r3 = (case us_originalText input of None \<Rightarrow> r2 | Some v \<Rightarrow> r2\<lparr>sess_originalText := v\<rparr>)
      in r3\<lparr>sess_updatedAt := d\<rparr>)"

definition updateSession_handler ::
  "updateSession_input \<Rightarrow> ActionAPIContext \<Rightarrow> env \<Rightarrow> store \<Rightarrow> action_result" where
  "updateSession_handler input context e st =
     (case requireUser context of
        Inl err \<Rightarrow> (Inl err, st)
      | Inr user \<Rightarrow>
          (case getOwnedSession (us_id input) (user_id user) st of
             Inl err \<Rightarrow> (Inl err, st)
           | Inr _ \<Rightarrow>
               (case db_update (updateSession_set input (now e)) (\<lambda>r. sess_id r = us_id input)
                       (RephraseSessions st) of
                  (rows, returning) \<Rightarrow>
                    (Inr (SessionData (first returning)), st\<lparr>RephraseSessions := rows\<rparr>))))"

definition listSessions_handler ::
  "unit \<Rightarrow> ActionAPIContext \<Rightarrow> env \<Rightarrow> store \<Rightarrow> action_result" where
  "listSessions_handler input context e st =
     (case requireUser context of
        Inl err \<Rightarrow> (Inl err, st)
      | Inr user \<Rightarrow>
          (let sessions = db_select (\<lambda>r. sess_userId r = user_id user) (RephraseSessions st)
           in (Inr (SessionItems sessions (length sessions)), st)))"

definition createVariant_handler ::
  "createVariant_input \<Rightarrow> ActionAPIContext \<Rightarrow> env \<Rightarrow> store \<Rightarrow> action_result" where
  "createVariant_handler input context e st =
     (case requireUser context of
        Inl err \<Rightarrow> (Inl err, st)
      | Inr user \<Rightarrow>
          (case getOwnedSession (cv_sessionId input) (user_id user) st of
             Inl err \<Rightarrow> (Inl err, st)
           | Inr _ \<Rightarrow>
               (case db_insert var_id variant_readback
                       \<lparr>var_id = randomUUID e, var_sessionId = cv_sessionId input,
                        var_tone = cv_tone input, var_complexity = cv_complexity input,
                        var_variantLabel = cv_variantLabel input, var_content = cv_content input,
                        var_isFavorite = (case cv_isFavorite input of None \<Rightarrow> False | Some b \<Rightarrow> b),
                        var_createdAt = now e\<rparr>
                       (RephraseVariants st) of
                  Inl err \<Rightarrow> (Inl err, st)
                | Inr (rows, returning) \<Rightarrow>
                    (Inr (VariantData (first returning)), st\<lparr>RephraseVariants := rows\<rparr>))))"

definition updateVariant_set :: "updateVariant_input \<Rightarrow> variant_row \<Rightarrow> variant_row" where
  "updateVariant_set input r =
     (let r1 = (case uv_tone input of None \<Rightarrow> r | Some v \<Rightarrow> r\<lparr>var_tone := Some v\<rparr>);
          r2 = (case uv_complexity input of None \<Rightarrow> r1 | Some v \<Rightarrow> r1\<lparr>var_complexity := Some v\<rparr>);
          r3 = (case uv_variantLabel input of None \<Rightarrow> r2 | Some v \<Rightarrow> r2\<lparr>var_variantLabel := Some v\<rparr>);
          r4 = (case uv_content input of None \<Rightarrow> r3 | Some v \<Rightarrow> r3\<lparr>var_content := v\<rparr>)
      in (case uv_isFavorite input of None \<Rightarrow> r4 | Some v \<Rightarrow> r4\<lparr>var_isFavorite := v\<rparr>))"

definition updateVariant_handler ::
  "updateVariant_input \<Rightarrow> ActionAPIContext \<Rightarrow> env \<Rightarrow> store \<Rightarrow> action_result" where
  "updateVariant_handler input context e st =
     (case requireUser context of
        Inl err \<Rightarrow> (Inl err, st)
      | Inr user \<Rightarrow>
          (case getOwnedSession (uv_sessionId input) (user_id user) st of
             Inl err \<Rightarrow> (Inl err, st)
           | Inr _ \<Rightarrow>
               (case first (db_select (\<lambda>r. var_id r = uv_id input \<and> var_sessionId r = uv_sessionId input)
                             (RephraseVariants st)) of
                  None \<Rightarrow> (Inl (ActionError NOT_FOUND ''Rephrase variant not found.''), st)
                | Some existing \<Rightarrow>
                    (case db_update (updateVariant_set input) (\<lambda>r. var_id r = uv_id input)
                            (RephraseVariants st) of
                       (rows, returning) \<Rightarrow>
                         (Inr (VariantData (first returning)), st\<lparr>RephraseVariants := rows\<rparr>)))))"

definition deleteVariant_handler ::
  "deleteVariant_input \<Rightarrow> ActionAPIContext \<Rightarrow> env \<Rightarrow> store \<Rightarrow> action_result" where
  "deleteVariant_handler input context e st =
     (case requireUser context of
        Inl err \<Rightarrow> (Inl err, st)
      | Inr user \<Rightarrow>
          (case getOwnedSession (dv_sessionId input) (user_id user) st of
             Inl err \<Rightarrow> (Inl err, st)
           | Inr _ \<Rightarrow>
               (case db_delete (\<lambda>r. var_id r = dv_id input \<and> var_sessionId r = dv_sessionId input)
                       (RephraseVariants st) of
                  (rows, rowsAffected) \<Rightarrow>
                    if rowsAffected = 0
                    then (Inl (ActionError NOT_FOUND ''Rephrase variant not found.''),
                          st\<lparr>RephraseVariants := rows\<rparr>)
                    else (Inr NoData, st\<lparr>RephraseVariants := rows\<rparr>))))"

definition listVariants_handler ::
  "listVariants_input \<Rightarrow> ActionAPIContext \<Rightarrow> env \<Rightarrow> store \<Rightarrow> action_result" where
  "listVariants_handler input context e st =
     (case requireUser context of
        Inl err \<Rightarrow> (Inl err, st)
      | Inr user \<Rightarrow>
          (case getOwnedSession (lv_sessionId input) (user_id user) st of
             Inl err \<Rightarrow> (Inl err, st)
           | Inr _ \<Rightarrow>
               (let variants =
                      db_select (\<lambda>r. var_sessionId r = lv_sessionId input
                                      \<and> (if lv_favoritesOnly input then var_isFavorite r = True else True))
                        (RephraseVariants st)
                in (Inr (VariantItems variants (length variants)), st))))"

text \<open>
  \<^verbatim>\<open>defineAction({ input, handler })\<close>: the argument is parsed by the \<^verbatim>\<open>input\<close> schema
  first. When the schema rejects it the call fails with the input error and the handler
  does not run; otherwise the handler runs on the parsed value (with defaults applied and
  unknown properties dropped).
\<close>

definition defineAction ::
  "(json \<Rightarrow> 'i parsed) \<Rightarrow> ('i \<Rightarrow> ActionAPIContext \<Rightarrow> env \<Rightarrow> store \<Rightarrow> action_result)
     \<Rightarrow> json \<Rightarrow> ActionAPIContext \<Rightarrow> env \<Rightarrow> store \<Rightarrow> action_result" where
  "defineAction schema handler raw context e st =
     (case schema raw of
        Inl iss \<Rightarrow> (Inl (ActionInputError iss), st)
      | Inr input \<Rightarrow> handler input context e st)"

definition createSession :: "json \<Rightarrow> ActionAPIContext \<Rightarrow> env \<Rightarrow> store \<Rightarrow> action_result" where
  "createSession = defineAction createSession_schema createSession_handler"

definition updateSession :: "json \<Rightarrow> ActionAPIContext \<Rightarrow> env \<Rightarrow> store \<Rightarrow> action_result" where
  "updateSession = defineAction updateSession_schema updateSession_handler"

definition listSessions :: "json \<Rightarrow> ActionAPIContext \<Rightarrow> env \<Rightarrow> store \<Rightarrow> action_result" where
  "listSessions = defineAction listSessions_schema listSessions_handler"

definition createVariant :: "json \<Rightarrow> ActionAPIContext \<Rightarrow> env \<Rightarrow> store \<Rightarrow> action_result" where
  "createVariant = defineAction createVariant_schema createVariant_handler"

definition updateVariant :: "json \<Rightarrow> ActionAPIContext \<Rightarrow> env \<Rightarrow> store \<Rightarrow> action_result" where
  "updateVariant = defineAction updateVariant_schema updateVariant_handler"

definition deleteVariant :: "json \<Rightarrow> ActionAPIContext \<Rightarrow> env \<Rightarrow> store \<Rightarrow> action_result" where
  "deleteVariant = defineAction deleteVariant_schema deleteVariant_handler"

definition listVariants :: "json \<Rightarrow> ActionAPIContext \<Rightarrow> env \<Rightarrow> store \<Rightarrow> action_result" where
  "listVariants = defineAction listVariants_schema listVariants_handler"

datatype operation =
    CreateSession | UpdateSession | ListSessions
  | CreateVariant | UpdateVariant | DeleteVariant | ListVariants

fun server :: "operation \<Rightarrow> json \<Rightarrow> ActionAPIContext \<Rightarrow> env \<Rightarrow> store \<Rightarrow> action_result" where
  "server CreateSession = createSession"
| "server UpdateSession = updateSession"
| "server ListSessions = listSessions"
| "server CreateVariant = createVariant"
| "server UpdateVariant = updateVariant"
| "server DeleteVariant = deleteVariant"
| "server ListVariants = listVariants"

text \<open>Whether the schema of an operation accepts an argument, and the issues it raises.\<close>

definition accepted_by :: "(json \<Rightarrow> 'i parsed) \<Rightarrow> json \<Rightarrow> bool" where
  "accepted_by schema raw = (case schema raw of Inl _ \<Rightarrow> False | Inr _ \<Rightarrow> True)"

fun accepted :: "operation \<Rightarrow> json \<Rightarrow> bool" where
  "accepted CreateSession raw = accepted_by createSession_schema raw"
| "accepted UpdateSession raw = accepted_by updateSession_schema raw"
| "accepted ListSessions raw = accepted_by listSessions_schema raw"
| "accepted CreateVariant raw = accepted_by createVariant_schema raw"
| "accepted UpdateVariant raw = accepted_by updateVariant_schema raw"
| "accepted DeleteVariant raw = accepted_by deleteVariant_schema raw"
| "accepted ListVariants raw = accepted_by listVariants_schema raw"

fun input_issues :: "operation \<Rightarrow> json \<Rightarrow> zod_issue list" where
  "input_issues CreateSession raw = issues (createSession_schema raw)"
| "input_issues UpdateSession raw = issues (updateSession_schema raw)"
| "input_issues ListSessions raw = issues (listSessions_schema raw)"
| "input_issues CreateVariant raw = issues (createVariant_schema raw)"
| "input_issues UpdateVariant raw = issues (updateVariant_schema raw)"
| "input_issues DeleteVariant raw = issues (deleteVariant_schema raw)"
| "input_issues ListVariants raw = issues (listVariants_schema raw)"

text \<open>
  \<open>supplied raw k\<close>: the argument is an object that has a property \<open>k\<close> other than
  \<^verbatim>\<open>undefined\<close>.
\<close>

definition supplied :: "json \<Rightarrow> string \<Rightarrow> bool" where
  "supplied raw k =
     (case raw of
        JObject fs \<Rightarrow> (case property fs k of JUndefined \<Rightarrow> False | _ \<Rightarrow> True)
      | _ \<Rightarrow> False)"

text \<open>The primary keys of both tables are unique.\<close>

definition wf_store :: "store \<Rightarrow> bool" where
  "wf_store st \<longleftrightarrow>
     distinct (map sess_id (RephraseSessions st)) \<and> distinct (map var_id (RephraseVariants st))"

section \<open>A small store for concrete runs\<close>

definition alice :: ActionAPIContext where
  "alice = \<lparr>context_locals = Some \<lparr>locals_user = Some \<lparr>user_id = ''alice''\<rparr>\<rparr>\<rparr>"

definition bob :: ActionAPIContext where
  "bob = \<lparr>context_locals = Some \<lparr>locals_user = Some \<lparr>user_id = ''bob''\<rparr>\<rparr>\<rparr>"

definition session1 :: session_row where
  "session1 = \<lparr>sess_id = ''s1'', sess_userId = ''alice'', sess_language = Some ''en'',
                sess_context = None, sess_originalText = ''Hello world'',
                sess_createdAt = 1, sess_updatedAt = 1\<rparr>"

definition session2 :: session_row where
  "session2 = \<lparr>sess_id = ''s2'', sess_userId = ''alice'', sess_language = None,
                sess_context = Some ''casual'', sess_originalText = ''Good morning'',
                sess_createdAt = 2, sess_updatedAt = 2\<rparr>"

definition variant1 :: variant_row where
  "variant1 = \<lparr>var_id = ''v1'', var_sessionId = ''s1'', var_tone = Some ''formal'',
                var_complexity = None, var_variantLabel = None, var_content = ''Greetings, world'',
                var_isFavorite = True, var_createdAt = 3\<rparr>"

definition example_store :: store where
  "example_store = \<lparr>RephraseSessions = [session1, session2], RephraseVariants = [variant1]\<rparr>"

definition clock :: env where
  "clock = \<lparr>randomUUID = ''v2'', now = 7\<rparr>"

text \<open>The stores that some sequence of calls produces from the empty one.\<close>

inductive reachable :: "store \<Rightarrow> bool" where
  init: "reachable empty_store"
| step: "reachable st \<Longrightarrow> reachable (snd (server op raw ctx e st))"

section \<open>Unfolding the definitions\<close>

lemmas example_defs = alice_def bob_def session1_def session2_def variant1_def example_store_def
  clock_def empty_store_def

lemmas schema_defs = createSession_schema_def updateSession_schema_def listSessions_schema_def
  createVariant_schema_def updateVariant_schema_def deleteVariant_schema_def
  listVariants_schema_def createSession_object_def updateSession_object_def
  createVariant_object_def updateVariant_object_def deleteVariant_object_def
  listVariants_object_def safeParse_def z_refine_def aborted_def parsed_value_def property_def
  z_string_def z_string_min_def z_boolean_def z_optional_def z_default_def is_defined_def
  refine_message_def issues_def Let_def

lemmas action_defs = createSession_def updateSession_def listSessions_def createVariant_def
  updateVariant_def deleteVariant_def listVariants_def defineAction_def
  createSession_handler_def updateSession_handler_def listSessions_handler_def
  createVariant_handler_def updateVariant_handler_def deleteVariant_handler_def
  listVariants_handler_def requireUser_def getOwnedSession_def first_def db_select_def
  db_insert_def db_update_def db_delete_def updateSession_set_def updateVariant_set_def
  read_text_def session_readback_def variant_readback_def

section \<open>The read-back of text\<close>


lemma read_text_prefix: "\<exists>rest. t = read_text t @ rest"
  unfolding read_text_def by (metis takeWhile_dropWhile_id)

lemma session_readback_frame:
  "sess_id (session_readback r) = sess_id r"
  "sess_userId (session_readback r) = sess_userId r"
  "sess_createdAt (session_readback r) = sess_createdAt r"
  "sess_updatedAt (session_readback r) = sess_updatedAt r"
  by (simp_all add: session_readback_def)

lemma variant_readback_frame:
  "var_id (variant_readback r) = var_id r"
  "var_sessionId (variant_readback r) = var_sessionId r"
  "var_isFavorite (variant_readback r) = var_isFavorite r"
  "var_createdAt (variant_readback r) = var_createdAt r"
  by (simp_all add: variant_readback_def)

section \<open>Validation precedes the handler\<close>

lemma defineAction_rejected:
  "schema raw = Inl iss \<Longrightarrow>
   defineAction schema handler raw ctx e st = (Inl (ActionInputError iss), st)"
  by (simp add: defineAction_def)

lemma defineAction_accepted:
  "schema raw = Inr inp \<Longrightarrow> defineAction schema handler raw ctx e st = handler inp ctx e st"
  by (simp add: defineAction_def)

lemma defineAction_cases:
  "defineAction schema handler raw ctx e st =
     (if accepted_by schema raw then handler (projr (schema raw)) ctx e st
      else (Inl (ActionInputError (issues (schema raw))), st))"
  by (cases "schema raw") (simp_all add: defineAction_def accepted_by_def issues_def)

section \<open>The authentication guard\<close>

lemma requireUser_no_user:
  "(case context_locals ctx of None \<Rightarrow> None | Some l \<Rightarrow> locals_user l) = None \<Longrightarrow>
   requireUser ctx = Inl (ActionError UNAUTHORIZED ''You must be signed in to perform this action.'')"
  by (simp add: requireUser_def)

lemma handlers_unauthorized:
  assumes "requireUser ctx = Inl err"
  shows "createSession_handler i1 ctx e st = (Inl err, st)"
    and "updateSession_handler i2 ctx e st = (Inl err, st)"
    and "listSessions_handler i3 ctx e st = (Inl err, st)"
    and "createVariant_handler i4 ctx e st = (Inl err, st)"
    and "updateVariant_handler i5 ctx e st = (Inl err, st)"
    and "deleteVariant_handler i6 ctx e st = (Inl err, st)"
    and "listVariants_handler i7 ctx e st = (Inl err, st)"
  using assms
  by (simp_all add: createSession_handler_def updateSession_handler_def listSessions_handler_def
      createVariant_handler_def updateVariant_handler_def deleteVariant_handler_def
      listVariants_handler_def)

text \<open>
  C2, as the code has it. A call whose request context carries no user never changes the
  store, and its result does not depend on the store. The result is the \<open>UNAUTHORIZED\<close>
  error exactly when the operation's schema accepts the argument: the schema runs before
  the handler, and \<open>requireUser\<close> is the first step of the handler, so an argument the
  schema rejects yields the validation failure instead.
\<close>

theorem unauthenticated_call:
  assumes "(case context_locals ctx of None \<Rightarrow> None | Some l \<Rightarrow> locals_user l) = None"
  shows "server op raw ctx e st =
           (if accepted op raw
            then Inl (ActionError UNAUTHORIZED ''You must be signed in to perform this action.'')
            else Inl (ActionInputError (input_issues op raw)), st)"
proof -
  have ru: "requireUser ctx =
      Inl (ActionError UNAUTHORIZED ''You must be signed in to perform this action.'')"
    using assms by (rule requireUser_no_user)
  show ?thesis
    by (cases op)
      (simp_all add: createSession_def updateSession_def listSessions_def createVariant_def
        updateVariant_def deleteVariant_def listVariants_def defineAction_cases
        handlers_unauthorized [OF ru])
qed

theorem unauthenticated_call_witness:
  "(case context_locals \<lparr>context_locals = Some \<lparr>locals_user = None\<rparr>\<rparr> of
      None \<Rightarrow> None | Some l \<Rightarrow> locals_user l) = None
   \<and> server UpdateVariant
        (JObject [(''id'', JString ''v1''), (''sessionId'', JString ''s1''),
                  (''isFavorite'', JBoolean True)])
        \<lparr>context_locals = Some \<lparr>locals_user = None\<rparr>\<rparr> \<lparr>randomUUID = ''u'', now = 5\<rparr> empty_store
      = (Inl (ActionError UNAUTHORIZED ''You must be signed in to perform this action.''),
         empty_store)"
proof -
  have acc: "accepted UpdateVariant
      (JObject [(''id'', JString ''v1''), (''sessionId'', JString ''s1''),
                (''isFavorite'', JBoolean True)])"
    by (simp add: accepted_by_def schema_defs)
  show ?thesis
    using unauthenticated_call [of "\<lparr>context_locals = Some \<lparr>locals_user = None\<rparr>\<rparr>" UpdateVariant
        "JObject [(''id'', JString ''v1''), (''sessionId'', JString ''s1''),
                  (''isFavorite'', JBoolean True)]"
        "\<lparr>randomUUID = ''u'', now = 5\<rparr>" empty_store] acc
    by simp
qed

text \<open>
  C2 as stated fails: with no user in the context, createSession on an empty
  \<open>originalText\<close> is a validation failure, not \<open>UNAUTHORIZED\<close>.
\<close>

theorem unauthenticated_invalid_input_counterexample:
  "(case context_locals \<lparr>context_locals = None\<rparr> of None \<Rightarrow> None | Some l \<Rightarrow> locals_user l) = None
   \<and> createSession (JObject [(''originalText'', JString '''')]) \<lparr>context_locals = None\<rparr>
        \<lparr>randomUUID = ''u'', now = 5\<rparr> empty_store
      = (Inl (ActionInputError [too_small [''originalText'']]), empty_store)"
  by (simp add: createSession_def defineAction_def schema_defs)

section \<open>The ownership resolver\<close>

lemma first_filter_Some: "x \<in> set xs \<Longrightarrow> P x \<Longrightarrow> \<exists>y. first (filter P xs) = Some y"
  by (cases "filter P xs") (auto simp: first_def filter_empty_conv)

lemma filter_key_unique:
  "distinct (map f xs) \<Longrightarrow> x \<in> set xs \<Longrightarrow> filter (\<lambda>r. f r = f x) xs = [x]"
proof (induction xs)
  case Nil
  then show ?case by simp
next
  case (Cons a xs)
  show ?case
  proof (cases "a = x")
    case True
    with Cons.prems have "f x \<notin> f ` set xs" by simp
    then have "filter (\<lambda>r. f r = f x) xs = []"
      by (metis (mono_tags, lifting) filter_False imageI)
    with True show ?thesis by simp
  next
    case False
    with Cons.prems have "x \<in> set xs" and "f a \<noteq> f x" and "distinct (map f xs)" by auto
    with Cons.IH show ?thesis by simp
  qed
qed

lemma filter_key_other:
  assumes "distinct (map f xs)" and "x \<in> set xs" and "\<not> Q x"
  shows "filter (\<lambda>r. f r = f x \<and> Q r) xs = []"
proof -
  have "filter (\<lambda>r. f r = f x \<and> Q r) xs = filter Q (filter (\<lambda>r. f r = f x) xs)"
    by (simp add: conj_commute)
  also have "\<dots> = filter Q [x]"
    using assms(1,2) by (simp add: filter_key_unique)
  finally show ?thesis using assms(3) by simp
qed

lemma filter_key_absent:
  "k \<notin> set (map f xs) \<Longrightarrow> filter (\<lambda>r. f r = k \<and> Q r) xs = []"
  by (auto simp: filter_empty_conv)

lemma getOwnedSession_no_row:
  "filter (\<lambda>r. sess_id r = sid \<and> sess_userId r = uid) (RephraseSessions st) = [] \<Longrightarrow>
   getOwnedSession sid uid st = Inl (ActionError NOT_FOUND ''Rephrase session not found.'')"
  by (simp add: getOwnedSession_def db_select_def first_def)

lemma getOwnedSession_owned:
  "s \<in> set (RephraseSessions st) \<Longrightarrow> sess_id s = sid \<Longrightarrow> sess_userId s = uid \<Longrightarrow>
   \<exists>s'. getOwnedSession sid uid st = Inr s'"
  using first_filter_Some [of s "RephraseSessions st" "\<lambda>r. sess_id r = sid \<and> sess_userId r = uid"]
  by (auto simp: getOwnedSession_def db_select_def)

lemma getOwnedSession_foreign:
  assumes "wf_store st" and "S \<in> set (RephraseSessions st)" and "uid \<noteq> sess_userId S"
  shows "getOwnedSession (sess_id S) uid st =
         Inl (ActionError NOT_FOUND ''Rephrase session not found.'')"
proof -
  have "distinct (map sess_id (RephraseSessions st))"
    using assms(1) by (simp add: wf_store_def)
  then have "filter (\<lambda>r. sess_id r = sess_id S \<and> sess_userId r = uid) (RephraseSessions st) = []"
    using assms(2,3) by (intro filter_key_other) auto
  then show ?thesis by (rule getOwnedSession_no_row)
qed

lemma getOwnedSession_absent:
  assumes "sid \<notin> set (map sess_id (RephraseSessions st))"
  shows "getOwnedSession sid uid st = Inl (ActionError NOT_FOUND ''Rephrase session not found.'')"
  using assms by (intro getOwnedSession_no_row filter_key_absent)

lemma handlers_session_error:
  assumes "requireUser ctx = Inr V"
  shows "getOwnedSession (us_id i2) (user_id V) st = Inl err \<Longrightarrow>
           updateSession_handler i2 ctx e st = (Inl err, st)"
    and "getOwnedSession (cv_sessionId i4) (user_id V) st = Inl err \<Longrightarrow>
           createVariant_handler i4 ctx e st = (Inl err, st)"
    and "getOwnedSession (uv_sessionId i5) (user_id V) st = Inl err \<Longrightarrow>
           updateVariant_handler i5 ctx e st = (Inl err, st)"
    and "getOwnedSession (dv_sessionId i6) (user_id V) st = Inl err \<Longrightarrow>
           deleteVariant_handler i6 ctx e st = (Inl err, st)"
    and "getOwnedSession (lv_sessionId i7) (user_id V) st = Inl err \<Longrightarrow>
           listVariants_handler i7 ctx e st = (Inl err, st)"
  using assms
  by (simp_all add: updateSession_handler_def createVariant_handler_def updateVariant_handler_def
      deleteVariant_handler_def listVariants_handler_def)

lemma actions_session_error:
  assumes "requireUser ctx = Inr V"
  shows "updateSession_schema r2 = Inr i2 \<Longrightarrow>
         getOwnedSession (us_id i2) (user_id V) st = Inl err \<Longrightarrow>
           updateSession r2 ctx e st = (Inl err, st)"
    and "createVariant_schema r4 = Inr i4 \<Longrightarrow>
         getOwnedSession (cv_sessionId i4) (user_id V) st = Inl err \<Longrightarrow>
           createVariant r4 ctx e st = (Inl err, st)"
    and "updateVariant_schema r5 = Inr i5 \<Longrightarrow>
         getOwnedSession (uv_sessionId i5) (user_id V) st = Inl err \<Longrightarrow>
           updateVariant r5 ctx e st = (Inl err, st)"
    and "deleteVariant_schema r6 = Inr i6 \<Longrightarrow>
         getOwnedSession (dv_sessionId i6) (user_id V) st = Inl err \<Longrightarrow>
           deleteVariant r6 ctx e st = (Inl err, st)"
    and "listVariants_schema r7 = Inr i7 \<Longrightarrow>
         getOwnedSession (lv_sessionId i7) (user_id V) st = Inl err \<Longrightarrow>
           listVariants r7 ctx e st = (Inl err, st)"
  by (simp_all add: updateSession_def createVariant_def updateVariant_def deleteVariant_def
      listVariants_def defineAction_accepted handlers_session_error [OF assms])

text \<open>
  C1. A caller \<open>V\<close> who is not the owner of the stored session \<open>S\<close> gets, from each of the
  five operations that resolve a session, the \<open>NOT_FOUND\<close> error with the message
  \<^verbatim>\<open>Rephrase session not found.\<close> and an unchanged store; and gets the very same error from
  a store \<open>st0\<close> in which no session has the id of \<open>S\<close>. The arguments are ones the schemas
  accept, and the primary keys of the store are unique.
\<close>

theorem foreign_session_not_found:
  assumes "wf_store st" and "S \<in> set (RephraseSessions st)"
    and "requireUser ctx = Inr V" and "user_id V \<noteq> sess_userId S"
    and "sess_id S \<notin> set (map sess_id (RephraseSessions st0))"
    and "updateSession_schema r2 = Inr i2" and "us_id i2 = sess_id S"
    and "createVariant_schema r4 = Inr i4" and "cv_sessionId i4 = sess_id S"
    and "updateVariant_schema r5 = Inr i5" and "uv_sessionId i5 = sess_id S"
    and "deleteVariant_schema r6 = Inr i6" and "dv_sessionId i6 = sess_id S"
    and "listVariants_schema r7 = Inr i7" and "lv_sessionId i7 = sess_id S"
  shows "updateSession r2 ctx e st =
           (Inl (ActionError NOT_FOUND ''Rephrase session not found.''), st)
       \<and> createVariant r4 ctx e st =
           (Inl (ActionError NOT_FOUND ''Rephrase session not found.''), st)
       \<and> updateVariant r5 ctx e st =
           (Inl (ActionError NOT_FOUND ''Rephrase session not found.''), st)
       \<and> deleteVariant r6 ctx e st =
           (Inl (ActionError NOT_FOUND ''Rephrase session not found.''), st)
       \<and> listVariants r7 ctx e st =
           (Inl (ActionError NOT_FOUND ''Rephrase session not found.''), st)
       \<and> fst (updateSession r2 ctx e st0) = fst (updateSession r2 ctx e st)
       \<and> fst (createVariant r4 ctx e st0) = fst (createVariant r4 ctx e st)
       \<and> fst (updateVariant r5 ctx e st0) = fst (updateVariant r5 ctx e st)
       \<and> fst (deleteVariant r6 ctx e st0) = fst (deleteVariant r6 ctx e st)
       \<and> fst (listVariants r7 ctx e st0) = fst (listVariants r7 ctx e st)"
proof -
  have here: "getOwnedSession (sess_id S) (user_id V) st =
      Inl (ActionError NOT_FOUND ''Rephrase session not found.'')"
    using assms(1,2,4) by (rule getOwnedSession_foreign)
  have there: "getOwnedSession (sess_id S) (user_id V) st0 =
      Inl (ActionError NOT_FOUND ''Rephrase session not found.'')"
    using assms(5) by (rule getOwnedSession_absent)
  note act = actions_session_error [OF assms(3)]
  have u: "updateSession r2 ctx e st' = (Inl err, st')"
    if "getOwnedSession (sess_id S) (user_id V) st' = Inl err" for st' err
    using act(1) [OF assms(6)] that assms(7) by simp
  have c: "createVariant r4 ctx e st' = (Inl err, st')"
    if "getOwnedSession (sess_id S) (user_id V) st' = Inl err" for st' err
    using act(2) [OF assms(8)] that assms(9) by simp
  have v: "updateVariant r5 ctx e st' = (Inl err, st')"
    if "getOwnedSession (sess_id S) (user_id V) st' = Inl err" for st' err
    using act(3) [OF assms(10)] that assms(11) by simp
  have d: "deleteVariant r6 ctx e st' = (Inl err, st')"
    if "getOwnedSession (sess_id S) (user_id V) st' = Inl err" for st' err
    using act(4) [OF assms(12)] that assms(13) by simp
  have l: "listVariants r7 ctx e st' = (Inl err, st')"
    if "getOwnedSession (sess_id S) (user_id V) st' = Inl err" for st' err
    using act(5) [OF assms(14)] that assms(15) by simp
  show ?thesis
    by (simp add: u [OF here] c [OF here] v [OF here] d [OF here] l [OF here]
        u [OF there] c [OF there] v [OF there] d [OF there] l [OF there])
qed

theorem foreign_session_not_found_witness:
  "wf_store example_store \<and> session1 \<in> set (RephraseSessions example_store)
   \<and> requireUser bob = Inr \<lparr>user_id = ''bob''\<rparr> \<and> ''bob'' \<noteq> sess_userId session1
   \<and> updateSession (JObject [(''id'', JString ''s1''), (''originalText'', JString ''mine'')])
        bob clock example_store
      = (Inl (ActionError NOT_FOUND ''Rephrase session not found.''), example_store)
   \<and> createVariant (JObject [(''sessionId'', JString ''s1''), (''content'', JString ''x'')])
        bob clock example_store
      = (Inl (ActionError NOT_FOUND ''Rephrase session not found.''), example_store)
   \<and> updateVariant (JObject [(''id'', JString ''v1''), (''sessionId'', JString ''s1''),
                              (''isFavorite'', JBoolean False)])
        bob clock example_store
      = (Inl (ActionError NOT_FOUND ''Rephrase session not found.''), example_store)
   \<and> deleteVariant (JObject [(''id'', JString ''v1''), (''sessionId'', JString ''s1'')])
        bob clock example_store
      = (Inl (ActionError NOT_FOUND ''Rephrase session not found.''), example_store)
   \<and> listVariants (JObject [(''sessionId'', JString ''s1'')]) bob clock example_store
      = (Inl (ActionError NOT_FOUND ''Rephrase session not found.''), example_store)
   \<and> fst (listVariants (JObject [(''sessionId'', JString ''s1'')]) bob clock empty_store)
      = fst (listVariants (JObject [(''sessionId'', JString ''s1'')]) bob clock example_store)"
proof -
  have h1: "wf_store example_store"
    by (simp add: wf_store_def example_defs)
  have h2: "session1 \<in> set (RephraseSessions example_store)"
    by (simp add: example_defs)
  have h3: "requireUser bob = Inr \<lparr>user_id = ''bob''\<rparr>"
    by (simp add: requireUser_def example_defs)
  have h4: "user_id \<lparr>user_id = ''bob''\<rparr> \<noteq> sess_userId session1"
    by (simp add: example_defs)
  have h5: "sess_id session1 \<notin> set (map sess_id (RephraseSessions empty_store))"
    by (simp add: example_defs)
  have p2: "updateSession_schema (JObject [(''id'', JString ''s1''), (''originalText'', JString ''mine'')])
      = Inr \<lparr>us_id = ''s1'', us_language = None, us_context = None, us_originalText = Some ''mine''\<rparr>"
    by (simp add: schema_defs)
  have p4: "createVariant_schema (JObject [(''sessionId'', JString ''s1''), (''content'', JString ''x'')])
      = Inr \<lparr>cv_sessionId = ''s1'', cv_tone = None, cv_complexity = None, cv_variantLabel = None,
              cv_content = ''x'', cv_isFavorite = None\<rparr>"
    by (simp add: schema_defs)
  have p5: "updateVariant_schema (JObject [(''id'', JString ''v1''), (''sessionId'', JString ''s1''),
                              (''isFavorite'', JBoolean False)])
      = Inr \<lparr>uv_id = ''v1'', uv_sessionId = ''s1'', uv_tone = None, uv_complexity = None,
              uv_variantLabel = None, uv_content = None, uv_isFavorite = Some False\<rparr>"
    by (simp add: schema_defs)
  have p6: "deleteVariant_schema (JObject [(''id'', JString ''v1''), (''sessionId'', JString ''s1'')])
      = Inr \<lparr>dv_id = ''v1'', dv_sessionId = ''s1''\<rparr>"
    by (simp add: schema_defs)
  have p7: "listVariants_schema (JObject [(''sessionId'', JString ''s1'')])
      = Inr \<lparr>lv_sessionId = ''s1'', lv_favoritesOnly = False\<rparr>"
    by (simp add: schema_defs)
  have ids: "us_id \<lparr>us_id = ''s1'', us_language = None, us_context = None,
                    us_originalText = Some ''mine''\<rparr> = sess_id session1"
    "cv_sessionId \<lparr>cv_sessionId = ''s1'', cv_tone = None, cv_complexity = None,
        cv_variantLabel = None, cv_content = ''x'', cv_isFavorite = None\<rparr> = sess_id session1"
    "uv_sessionId \<lparr>uv_id = ''v1'', uv_sessionId = ''s1'', uv_tone = None, uv_complexity = None,
        uv_variantLabel = None, uv_content = None, uv_isFavorite = Some False\<rparr> = sess_id session1"
    "dv_sessionId \<lparr>dv_id = ''v1'', dv_sessionId = ''s1''\<rparr> = sess_id session1"
    "lv_sessionId \<lparr>lv_sessionId = ''s1'', lv_favoritesOnly = False\<rparr> = sess_id session1"
    by (simp_all add: example_defs)
  from foreign_session_not_found [OF h1 h2 h3 h4 h5 p2 ids(1) p4 ids(2) p5 ids(3) p6 ids(4) p7 ids(5),
      of clock]
  show ?thesis using h1 h2 h3 h4 by simp
qed

section \<open>Variant operations\<close>

lemma updateVariant_set_frame:
  "var_id (updateVariant_set inp r) = var_id r"
  "var_sessionId (updateVariant_set inp r) = var_sessionId r"
  "var_createdAt (updateVariant_set inp r) = var_createdAt r"
  by (simp_all add: updateVariant_set_def Let_def split: option.splits)

lemma updateVariant_handler_owned:
  assumes "requireUser ctx = Inr U" and "getOwnedSession (uv_sessionId inp) (user_id U) st = Inr s"
  shows "updateVariant_handler inp ctx e st =
     (case first (filter (\<lambda>r. var_id r = uv_id inp \<and> var_sessionId r = uv_sessionId inp)
                   (RephraseVariants st)) of
        None \<Rightarrow> (Inl (ActionError NOT_FOUND ''Rephrase variant not found.''), st)
      | Some existing \<Rightarrow>
          (Inr (VariantData (first (map (updateVariant_set inp)
                  (filter (\<lambda>r. var_id r = uv_id inp) (RephraseVariants st))))),
           st\<lparr>RephraseVariants :=
                map (\<lambda>r. if var_id r = uv_id inp then updateVariant_set inp r else r)
                  (RephraseVariants st)\<rparr>))"
  using assms
  by (simp add: updateVariant_handler_def db_select_def db_update_def split: option.splits)

text \<open>
  C4. The caller owns the session named by \<open>sessionId\<close>; the variant \<open>v\<close> has the supplied
  id and belongs to another session. updateVariant fails with \<open>NOT_FOUND\<close> and the message
  \<^verbatim>\<open>Rephrase variant not found.\<close>, and the store is unchanged. The primary keys of the store
  are unique, so \<open>v\<close> is the only variant with that id.
\<close>

theorem updateVariant_wrong_session:
  assumes "wf_store st" and "requireUser ctx = Inr U"
    and "updateVariant_schema raw = Inr inp"
    and "s \<in> set (RephraseSessions st)"
    and "sess_id s = uv_sessionId inp" and "sess_userId s = user_id U"
    and "v \<in> set (RephraseVariants st)"
    and "var_id v = uv_id inp" and "var_sessionId v \<noteq> uv_sessionId inp"
  shows "updateVariant raw ctx e st =
           (Inl (ActionError NOT_FOUND ''Rephrase variant not found.''), st)"
proof -
  obtain s' where own: "getOwnedSession (uv_sessionId inp) (user_id U) st = Inr s'"
    using getOwnedSession_owned [OF assms(4,5,6)] by blast
  have "distinct (map var_id (RephraseVariants st))"
    using assms(1) by (simp add: wf_store_def)
  then have "filter (\<lambda>r. var_id r = var_id v \<and> var_sessionId r = uv_sessionId inp)
      (RephraseVariants st) = []"
    using assms(7,9) by (intro filter_key_other) auto
  then have none: "first (filter (\<lambda>r. var_id r = uv_id inp \<and> var_sessionId r = uv_sessionId inp)
      (RephraseVariants st)) = None"
    using assms(8) by (simp add: first_def)
  show ?thesis
    using assms(3)
    by (simp add: updateVariant_def defineAction_def
        updateVariant_handler_owned [OF assms(2) own] none)
qed

text \<open>
  C10. Whenever updateVariant succeeds, the write is the one update statement selected by
  the variant id alone, setting only the supplied fields; hence every row of the variants
  table keeps its \<open>id\<close>, its \<open>sessionId\<close> and its \<open>createdAt\<close>, no row is added or removed,
  and the sessions table is untouched.
\<close>

theorem updateVariant_frame:
  assumes "updateVariant raw ctx e st = (Inr d, st')"
  shows "\<exists>inp. updateVariant_schema raw = Inr inp
           \<and> RephraseVariants st' =
               map (\<lambda>r. if var_id r = uv_id inp then updateVariant_set inp r else r)
                 (RephraseVariants st)
           \<and> map var_id (RephraseVariants st') = map var_id (RephraseVariants st)
           \<and> map var_sessionId (RephraseVariants st') = map var_sessionId (RephraseVariants st)
           \<and> map var_createdAt (RephraseVariants st') = map var_createdAt (RephraseVariants st)
           \<and> RephraseSessions st' = RephraseSessions st"
proof (cases "updateVariant_schema raw")
  case (Inl iss)
  with assms show ?thesis
    by (simp add: updateVariant_def defineAction_def)
next
  case (Inr inp)
  with assms have h: "updateVariant_handler inp ctx e st = (Inr d, st')"
    by (simp add: updateVariant_def defineAction_def)
  then have tbl: "RephraseVariants st' =
      map (\<lambda>r. if var_id r = uv_id inp then updateVariant_set inp r else r) (RephraseVariants st)"
    and ses: "RephraseSessions st' = RephraseSessions st"
    by (auto simp: updateVariant_handler_def db_update_def db_select_def
        split: sum.splits option.splits)
  have "map var_id (RephraseVariants st') = map var_id (RephraseVariants st)"
    and "map var_sessionId (RephraseVariants st') = map var_sessionId (RephraseVariants st)"
    and "map var_createdAt (RephraseVariants st') = map var_createdAt (RephraseVariants st)"
    unfolding tbl by (simp_all add: updateVariant_set_frame o_def cong: map_cong)
  with Inr tbl ses show ?thesis by simp
qed

theorem updateVariant_wrong_session_witness:
  "wf_store example_store \<and> requireUser alice = Inr \<lparr>user_id = ''alice''\<rparr>
   \<and> session2 \<in> set (RephraseSessions example_store) \<and> sess_userId session2 = ''alice''
   \<and> variant1 \<in> set (RephraseVariants example_store)
   \<and> var_id variant1 = ''v1'' \<and> var_sessionId variant1 \<noteq> sess_id session2
   \<and> updateVariant (JObject [(''id'', JString ''v1''), (''sessionId'', JString ''s2''),
                              (''content'', JString ''moved'')])
        alice clock example_store
      = (Inl (ActionError NOT_FOUND ''Rephrase variant not found.''), example_store)"
proof -
  have h1: "wf_store example_store"
    by (simp add: wf_store_def example_defs)
  have h2: "requireUser alice = Inr \<lparr>user_id = ''alice''\<rparr>"
    by (simp add: requireUser_def example_defs)
  have h3: "updateVariant_schema (JObject [(''id'', JString ''v1''), (''sessionId'', JString ''s2''),
                              (''content'', JString ''moved'')])
      = Inr \<lparr>uv_id = ''v1'', uv_sessionId = ''s2'', uv_tone = None, uv_complexity = None,
              uv_variantLabel = None, uv_content = Some ''moved'', uv_isFavorite = None\<rparr>"
    by (simp add: schema_defs)
  have h4: "session2 \<in> set (RephraseSessions example_store)"
    and h7: "variant1 \<in> set (RephraseVariants example_store)"
    by (simp_all add: example_defs)
  have h5: "sess_id session2 = uv_sessionId \<lparr>uv_id = ''v1'', uv_sessionId = ''s2'', uv_tone = None,
      uv_complexity = None, uv_variantLabel = None, uv_content = Some ''moved'', uv_isFavorite = None\<rparr>"
    and h6: "sess_userId session2 = user_id \<lparr>user_id = ''alice''\<rparr>"
    and h8: "var_id variant1 = uv_id \<lparr>uv_id = ''v1'', uv_sessionId = ''s2'', uv_tone = None,
      uv_complexity = None, uv_variantLabel = None, uv_content = Some ''moved'', uv_isFavorite = None\<rparr>"
    and h9: "var_sessionId variant1 \<noteq> uv_sessionId \<lparr>uv_id = ''v1'', uv_sessionId = ''s2'', uv_tone = None,
      uv_complexity = None, uv_variantLabel = None, uv_content = Some ''moved'', uv_isFavorite = None\<rparr>"
    by (simp_all add: example_defs)
  from updateVariant_wrong_session [OF h1 h2 h3 h4 h5 h6 h7 h8 h9, of clock]
  show ?thesis using h1 h2 h4 h7 h5 h6 h8 h9 by simp
qed

theorem updateVariant_frame_witness:
  "updateVariant (JObject [(''id'', JString ''v1''), (''sessionId'', JString ''s1''),
                           (''content'', JString ''Hi''), (''isFavorite'', JBoolean False)])
        alice clock example_store
     = (Inr (VariantData (Some (variant1\<lparr>var_content := ''Hi'', var_isFavorite := False\<rparr>))),
        example_store\<lparr>RephraseVariants := [variant1\<lparr>var_content := ''Hi'', var_isFavorite := False\<rparr>]\<rparr>)
   \<and> map var_id (RephraseVariants
        (example_store\<lparr>RephraseVariants := [variant1\<lparr>var_content := ''Hi'', var_isFavorite := False\<rparr>]\<rparr>))
      = map var_id (RephraseVariants example_store)
   \<and> map var_sessionId (RephraseVariants
        (example_store\<lparr>RephraseVariants := [variant1\<lparr>var_content := ''Hi'', var_isFavorite := False\<rparr>]\<rparr>))
      = map var_sessionId (RephraseVariants example_store)
   \<and> map var_createdAt (RephraseVariants
        (example_store\<lparr>RephraseVariants := [variant1\<lparr>var_content := ''Hi'', var_isFavorite := False\<rparr>]\<rparr>))
      = map var_createdAt (RephraseVariants example_store)"
proof -
  have run: "updateVariant (JObject [(''id'', JString ''v1''), (''sessionId'', JString ''s1''),
                           (''content'', JString ''Hi''), (''isFavorite'', JBoolean False)])
        alice clock example_store
     = (Inr (VariantData (Some (variant1\<lparr>var_content := ''Hi'', var_isFavorite := False\<rparr>))),
        example_store\<lparr>RephraseVariants := [variant1\<lparr>var_content := ''Hi'', var_isFavorite := False\<rparr>]\<rparr>)"
    by (simp add: action_defs schema_defs example_defs)
  from updateVariant_frame [OF run] show ?thesis
    using run by blast
qed

lemma filter_none_keeps: "filter P xs = [] \<Longrightarrow> filter (\<lambda>r. \<not> P r) xs = xs"
  by (induction xs) (auto split: if_splits)

lemma deleteVariant_handler_owned:
  assumes "requireUser ctx = Inr U" and "getOwnedSession (dv_sessionId inp) (user_id U) st = Inr s"
  shows "deleteVariant_handler inp ctx e st =
     (if filter (\<lambda>r. var_id r = dv_id inp \<and> var_sessionId r = dv_sessionId inp)
           (RephraseVariants st) = []
      then (Inl (ActionError NOT_FOUND ''Rephrase variant not found.''), st)
      else (Inr NoData,
            st\<lparr>RephraseVariants :=
                 filter (\<lambda>r. \<not> (var_id r = dv_id inp \<and> var_sessionId r = dv_sessionId inp))
                   (RephraseVariants st)\<rparr>))"
  using assms
    filter_none_keeps [of "\<lambda>r. var_id r = dv_id inp \<and> var_sessionId r = dv_sessionId inp"
      "RephraseVariants st"]
  by (auto simp add: deleteVariant_handler_def db_delete_def)

lemma listVariants_handler_owned:
  assumes "requireUser ctx = Inr U" and "getOwnedSession (lv_sessionId inp) (user_id U) st = Inr s"
  shows "listVariants_handler inp ctx e st =
     (Inr (VariantItems
        (filter (\<lambda>r. var_sessionId r = lv_sessionId inp \<and> (lv_favoritesOnly inp \<longrightarrow> var_isFavorite r))
           (RephraseVariants st))
        (length (filter (\<lambda>r. var_sessionId r = lv_sessionId inp
                              \<and> (lv_favoritesOnly inp \<longrightarrow> var_isFavorite r))
           (RephraseVariants st)))), st)"
proof -
  have sel: "db_select (\<lambda>r. var_sessionId r = lv_sessionId inp
              \<and> (if lv_favoritesOnly inp then var_isFavorite r = True else True)) rows
      = filter (\<lambda>r. var_sessionId r = lv_sessionId inp
              \<and> (lv_favoritesOnly inp \<longrightarrow> var_isFavorite r)) rows" for rows
    unfolding db_select_def by (rule filter_cong) auto
  show ?thesis
    unfolding listVariants_handler_def sel Let_def using assms by simp
qed

text \<open>
  C5. The caller owns the session named by \<open>sessionId\<close>. If no variant has both the
  supplied id and that session, deleteVariant fails with \<open>NOT_FOUND\<close> and the store is
  unchanged. If the variant \<open>v\<close> has both, deleteVariant returns the bare success and removes
  exactly the matching rows; in the store it leaves, listVariants of that session (with any
  \<open>favoritesOnly\<close>) lists neither \<open>v\<close> nor any row with its id, and the same deleteVariant
  call fails with \<open>NOT_FOUND\<close>.
\<close>

theorem deleteVariant_not_idempotent:
  assumes "requireUser ctx = Inr U"
    and "deleteVariant_schema raw = Inr inp"
    and "s \<in> set (RephraseSessions st)"
    and "sess_id s = dv_sessionId inp" and "sess_userId s = user_id U"
    and "listVariants_schema rawl = Inr linp" and "lv_sessionId linp = dv_sessionId inp"
  shows "(filter (\<lambda>r. var_id r = dv_id inp \<and> var_sessionId r = dv_sessionId inp)
            (RephraseVariants st) = [] \<longrightarrow>
          deleteVariant raw ctx e st =
            (Inl (ActionError NOT_FOUND ''Rephrase variant not found.''), st))
       \<and> (v \<in> set (RephraseVariants st) \<and> var_id v = dv_id inp
            \<and> var_sessionId v = dv_sessionId inp \<longrightarrow>
          (\<exists>st' items.
              st' = st\<lparr>RephraseVariants :=
                         filter (\<lambda>r. \<not> (var_id r = dv_id inp \<and> var_sessionId r = dv_sessionId inp))
                           (RephraseVariants st)\<rparr>
            \<and> deleteVariant raw ctx e st = (Inr NoData, st')
            \<and> listVariants rawl ctx e1 st' = (Inr (VariantItems items (length items)), st')
            \<and> v \<notin> set items \<and> dv_id inp \<notin> set (map var_id items)
            \<and> deleteVariant raw ctx e2 st' =
                (Inl (ActionError NOT_FOUND ''Rephrase variant not found.''), st')))"
proof -
  let ?wh = "\<lambda>r. var_id r = dv_id inp \<and> var_sessionId r = dv_sessionId inp"
  let ?st' = "st\<lparr>RephraseVariants := filter (\<lambda>r. \<not> ?wh r) (RephraseVariants st)\<rparr>"
  obtain s1 where own: "getOwnedSession (dv_sessionId inp) (user_id U) st = Inr s1"
    using getOwnedSession_owned [OF assms(3,4,5)] by blast
  have "s \<in> set (RephraseSessions ?st')"
    using assms(3) by simp
  then obtain s2 where own': "getOwnedSession (dv_sessionId inp) (user_id U) ?st' = Inr s2"
    using getOwnedSession_owned [OF _ assms(4,5)] by blast
  have del: "deleteVariant raw ctx e' st0 = deleteVariant_handler inp ctx e' st0" for e' st0
    using assms(2) by (simp add: deleteVariant_def defineAction_def)
  have lst: "listVariants rawl ctx e' st0 = listVariants_handler linp ctx e' st0" for e' st0
    using assms(6) by (simp add: listVariants_def defineAction_def)
  have absent: "deleteVariant raw ctx e st =
      (Inl (ActionError NOT_FOUND ''Rephrase variant not found.''), st)"
    if "filter ?wh (RephraseVariants st) = []"
    using that by (simp add: del deleteVariant_handler_owned [OF assms(1) own])
  have present: "\<exists>st' items. st' = ?st'
            \<and> deleteVariant raw ctx e st = (Inr NoData, st')
            \<and> listVariants rawl ctx e1 st' = (Inr (VariantItems items (length items)), st')
            \<and> v \<notin> set items \<and> dv_id inp \<notin> set (map var_id items)
            \<and> deleteVariant raw ctx e2 st' =
                (Inl (ActionError NOT_FOUND ''Rephrase variant not found.''), st')"
    if v: "v \<in> set (RephraseVariants st)" "var_id v = dv_id inp" "var_sessionId v = dv_sessionId inp"
  proof -
    let ?items = "filter (\<lambda>r. var_sessionId r = lv_sessionId linp
        \<and> (lv_favoritesOnly linp \<longrightarrow> var_isFavorite r)) (RephraseVariants ?st')"
    have "filter ?wh (RephraseVariants st) \<noteq> []"
      using v by (auto simp: filter_empty_conv)
    then have d1: "deleteVariant raw ctx e st = (Inr NoData, ?st')"
      by (simp add: del deleteVariant_handler_owned [OF assms(1) own])
    have l1: "listVariants rawl ctx e1 ?st' = (Inr (VariantItems ?items (length ?items)), ?st')"
      using own' assms(7)
      by (simp only: lst listVariants_handler_owned [OF assms(1), of linp ?st' s2])
    have n1: "v \<notin> set ?items" using v by simp
    have n2: "dv_id inp \<notin> set (map var_id ?items)"
      using assms(7) by auto
    have "filter ?wh (RephraseVariants ?st') = []"
      by (simp add: filter_empty_conv)
    then have d2: "deleteVariant raw ctx e2 ?st' =
        (Inl (ActionError NOT_FOUND ''Rephrase variant not found.''), ?st')"
      unfolding del deleteVariant_handler_owned [OF assms(1) own'] by simp
    from d1 l1 n1 n2 d2 show ?thesis by blast
  qed
  from absent present show ?thesis by blast
qed

theorem deleteVariant_not_idempotent_witness:
  "requireUser alice = Inr \<lparr>user_id = ''alice''\<rparr>
   \<and> session1 \<in> set (RephraseSessions example_store)
   \<and> variant1 \<in> set (RephraseVariants example_store)
   \<and> deleteVariant (JObject [(''id'', JString ''v9''), (''sessionId'', JString ''s1'')])
        alice clock example_store
      = (Inl (ActionError NOT_FOUND ''Rephrase variant not found.''), example_store)
   \<and> (\<exists>st' items.
         deleteVariant (JObject [(''id'', JString ''v1''), (''sessionId'', JString ''s1'')])
           alice clock example_store = (Inr NoData, st')
       \<and> listVariants (JObject [(''sessionId'', JString ''s1'')]) alice clock st'
           = (Inr (VariantItems items (length items)), st')
       \<and> variant1 \<notin> set items
       \<and> deleteVariant (JObject [(''id'', JString ''v1''), (''sessionId'', JString ''s1'')])
           alice clock st'
           = (Inl (ActionError NOT_FOUND ''Rephrase variant not found.''), st'))"
proof -
  have h1: "requireUser alice = Inr \<lparr>user_id = ''alice''\<rparr>"
    by (simp add: requireUser_def example_defs)
  have p9: "deleteVariant_schema (JObject [(''id'', JString ''v9''), (''sessionId'', JString ''s1'')])
      = Inr \<lparr>dv_id = ''v9'', dv_sessionId = ''s1''\<rparr>"
    and p1: "deleteVariant_schema (JObject [(''id'', JString ''v1''), (''sessionId'', JString ''s1'')])
      = Inr \<lparr>dv_id = ''v1'', dv_sessionId = ''s1''\<rparr>"
    and pl: "listVariants_schema (JObject [(''sessionId'', JString ''s1'')])
      = Inr \<lparr>lv_sessionId = ''s1'', lv_favoritesOnly = False\<rparr>"
    by (simp_all add: schema_defs)
  have h3: "session1 \<in> set (RephraseSessions example_store)"
    and hv: "variant1 \<in> set (RephraseVariants example_store)"
    by (simp_all add: example_defs)
  have h4: "sess_id session1 = dv_sessionId \<lparr>dv_id = i, dv_sessionId = ''s1''\<rparr>"
    and h5: "sess_userId session1 = user_id \<lparr>user_id = ''alice''\<rparr>"
    and h7: "lv_sessionId \<lparr>lv_sessionId = ''s1'', lv_favoritesOnly = False\<rparr>
        = dv_sessionId \<lparr>dv_id = i, dv_sessionId = ''s1''\<rparr>" for i
    by (simp_all add: example_defs)
  have none: "filter (\<lambda>r. var_id r = dv_id \<lparr>dv_id = ''v9'', dv_sessionId = ''s1''\<rparr>
        \<and> var_sessionId r = dv_sessionId \<lparr>dv_id = ''v9'', dv_sessionId = ''s1''\<rparr>)
      (RephraseVariants example_store) = []"
    by (simp add: example_defs)
  have some: "variant1 \<in> set (RephraseVariants example_store)
      \<and> var_id variant1 = dv_id \<lparr>dv_id = ''v1'', dv_sessionId = ''s1''\<rparr>
      \<and> var_sessionId variant1 = dv_sessionId \<lparr>dv_id = ''v1'', dv_sessionId = ''s1''\<rparr>"
    by (simp add: example_defs)
  from deleteVariant_not_idempotent [OF h1 p9 h3 h4 h5 pl h7, where e = clock] none
  have a: "deleteVariant (JObject [(''id'', JString ''v9''), (''sessionId'', JString ''s1'')])
        alice clock example_store
      = (Inl (ActionError NOT_FOUND ''Rephrase variant not found.''), example_store)"
    by blast
  from deleteVariant_not_idempotent [OF h1 p1 h3 h4 h5 pl h7, where v = variant1 and e = clock] some
  have b: "\<exists>st' items.
         deleteVariant (JObject [(''id'', JString ''v1''), (''sessionId'', JString ''s1'')])
           alice clock example_store = (Inr NoData, st')
       \<and> listVariants (JObject [(''sessionId'', JString ''s1'')]) alice clock st'
           = (Inr (VariantItems items (length items)), st')
       \<and> variant1 \<notin> set items
       \<and> deleteVariant (JObject [(''id'', JString ''v1''), (''sessionId'', JString ''s1'')])
           alice clock st'
           = (Inl (ActionError NOT_FOUND ''Rephrase variant not found.''), st')"
    by blast
  from h1 h3 hv a b show ?thesis by blast
qed

section \<open>Session operations and input validation\<close>

lemma not_supplied_object: "\<not> supplied (JObject fs) k \<Longrightarrow> property fs k = JUndefined"
  by (cases "property fs k") (simp_all add: supplied_def)

lemma z_optional_undefined: "z_optional inner path JUndefined = ([], Some None)"
  by (simp add: z_optional_def)

lemma safeParse_aborted: "safeParse (iss, None) = Inl iss"
  by (cases iss) (simp_all add: safeParse_def)

lemma safeParse_issue: "safeParse (iss @ [c], x) = Inl (iss @ [c])"
  by (cases iss; cases x) (simp_all add: safeParse_def)

lemma safeParse_issue2: "safeParse (a @ b @ [c], x) = Inl (a @ b @ [c])"
  using safeParse_issue [of "a @ b" c x] by simp

lemma safeParse_Inr: "safeParse r = Inr v \<Longrightarrow> r = ([], Some v)"
  by (auto simp: safeParse_def split: prod.splits list.splits option.splits)

lemma updateSession_schema_no_fields:
  assumes "\<not> supplied raw ''language''" and "\<not> supplied raw ''context''"
    and "\<not> supplied raw ''originalText''"
  shows "updateSession_schema raw =
     (case raw of
        JObject fs \<Rightarrow>
          (case z_string_min 1 [''id''] (property fs ''id'') of
             (iss, None) \<Rightarrow> Inl iss
           | (iss, Some i) \<Rightarrow> Inl (iss @ [custom refine_message]))
      | _ \<Rightarrow> Inl [invalid_type []])"
proof (cases raw)
  case (JObject fs)
  obtain iss x where id: "z_string_min 1 [''id''] (property fs ''id'') = (iss, x)"
    by (cases "z_string_min 1 [''id''] (property fs ''id'')")
  from JObject assms have "property fs ''language'' = JUndefined"
    "property fs ''context'' = JUndefined" "property fs ''originalText'' = JUndefined"
    by (simp_all add: not_supplied_object)
  with JObject id show ?thesis
    by (cases x)
      (simp_all add: updateSession_schema_def updateSession_object_def z_optional_undefined
        z_refine_def aborted_def parsed_value_def is_defined_def safeParse_aborted
        safeParse_issue)
qed (simp_all add: updateSession_schema_def updateSession_object_def z_refine_def safeParse_def)

lemma updateVariant_schema_no_fields:
  assumes "\<not> supplied raw ''tone''" and "\<not> supplied raw ''complexity''"
    and "\<not> supplied raw ''variantLabel''" and "\<not> supplied raw ''content''"
    and "\<not> supplied raw ''isFavorite''"
  shows "updateVariant_schema raw =
     (case raw of
        JObject fs \<Rightarrow>
          (let id = z_string_min 1 [''id''] (property fs ''id'');
               sessionId = z_string_min 1 [''sessionId''] (property fs ''sessionId'')
           in if aborted id \<or> aborted sessionId then Inl (fst id @ fst sessionId)
              else Inl (fst id @ fst sessionId @ [custom refine_message]))
      | _ \<Rightarrow> Inl [invalid_type []])"
proof (cases raw)
  case (JObject fs)
  from JObject assms have "property fs ''tone'' = JUndefined"
    "property fs ''complexity'' = JUndefined" "property fs ''variantLabel'' = JUndefined"
    "property fs ''content'' = JUndefined" "property fs ''isFavorite'' = JUndefined"
    by (simp_all add: not_supplied_object)
  with JObject show ?thesis
    by (simp add: updateVariant_schema_def updateVariant_object_def z_optional_undefined
        z_refine_def aborted_def parsed_value_def is_defined_def safeParse_aborted
        safeParse_issue2 Let_def)
qed (simp_all add: updateVariant_schema_def updateVariant_object_def z_refine_def safeParse_def)

text \<open>
  C6. An argument of updateSession that supplies none of \<open>language\<close>, \<open>context\<close>,
  \<open>originalText\<close>, and an argument of updateVariant that supplies none of \<open>tone\<close>,
  \<open>complexity\<close>, \<open>variantLabel\<close>, \<open>content\<close>, \<open>isFavorite\<close>, is rejected by the schema: the
  result is the validation failure, whoever calls and whatever the store holds, and the
  store is unchanged. When the rest of the shape is valid, the failure is the single issue
  of the \<^verbatim>\<open>refine\<close> rule.
\<close>

theorem update_without_fields_rejected:
  "(\<not> supplied raw ''language'' \<and> \<not> supplied raw ''context'' \<and> \<not> supplied raw ''originalText''
      \<longrightarrow> (\<exists>iss. updateSession raw ctx e st = (Inl (ActionInputError iss), st))
        \<and> ((\<exists>fs i. raw = JObject fs \<and> property fs ''id'' = JString i \<and> i \<noteq> []) \<longrightarrow>
             updateSession raw ctx e st =
               (Inl (ActionInputError [custom ''At least one field must be provided to update.'']),
                st)))
   \<and> (\<not> supplied raw ''tone'' \<and> \<not> supplied raw ''complexity'' \<and> \<not> supplied raw ''variantLabel''
        \<and> \<not> supplied raw ''content'' \<and> \<not> supplied raw ''isFavorite''
      \<longrightarrow> (\<exists>iss. updateVariant raw ctx e st = (Inl (ActionInputError iss), st))
        \<and> ((\<exists>fs i j. raw = JObject fs \<and> property fs ''id'' = JString i \<and> i \<noteq> []
               \<and> property fs ''sessionId'' = JString j \<and> j \<noteq> []) \<longrightarrow>
             updateVariant raw ctx e st =
               (Inl (ActionInputError [custom ''At least one field must be provided to update.'']),
                st)))"
proof -
  have s1: "\<exists>iss. updateSession raw ctx e st = (Inl (ActionInputError iss), st)"
    and s2: "(\<exists>fs i. raw = JObject fs \<and> property fs ''id'' = JString i \<and> i \<noteq> []) \<longrightarrow>
             updateSession raw ctx e st =
               (Inl (ActionInputError [custom ''At least one field must be provided to update.'']),
                st)"
    if "\<not> supplied raw ''language''" "\<not> supplied raw ''context''" "\<not> supplied raw ''originalText''"
  proof -
    note sch = updateSession_schema_no_fields [OF that]
    show "\<exists>iss. updateSession raw ctx e st = (Inl (ActionInputError iss), st)"
      by (simp add: updateSession_def defineAction_def sch
          split: json.splits prod.splits option.splits)
    show "(\<exists>fs i. raw = JObject fs \<and> property fs ''id'' = JString i \<and> i \<noteq> []) \<longrightarrow>
             updateSession raw ctx e st =
               (Inl (ActionInputError [custom ''At least one field must be provided to update.'']),
                st)"
      by (auto simp: updateSession_def defineAction_def sch z_string_min_def refine_message_def)
  qed
  have v1: "\<exists>iss. updateVariant raw ctx e st = (Inl (ActionInputError iss), st)"
    and v2: "(\<exists>fs i j. raw = JObject fs \<and> property fs ''id'' = JString i \<and> i \<noteq> []
               \<and> property fs ''sessionId'' = JString j \<and> j \<noteq> []) \<longrightarrow>
             updateVariant raw ctx e st =
               (Inl (ActionInputError [custom ''At least one field must be provided to update.'']),
                st)"
    if "\<not> supplied raw ''tone''" "\<not> supplied raw ''complexity''" "\<not> supplied raw ''variantLabel''"
      "\<not> supplied raw ''content''" "\<not> supplied raw ''isFavorite''"
  proof -
    note sch = updateVariant_schema_no_fields [OF that]
    show "\<exists>iss. updateVariant raw ctx e st = (Inl (ActionInputError iss), st)"
      by (simp add: updateVariant_def defineAction_def sch Let_def split: json.splits)
    show "(\<exists>fs i j. raw = JObject fs \<and> property fs ''id'' = JString i \<and> i \<noteq> []
               \<and> property fs ''sessionId'' = JString j \<and> j \<noteq> []) \<longrightarrow>
             updateVariant raw ctx e st =
               (Inl (ActionInputError [custom ''At least one field must be provided to update.'']),
                st)"
      by (auto simp: updateVariant_def defineAction_def sch z_string_min_def refine_message_def
          aborted_def)
  qed
  from s1 s2 v1 v2 show ?thesis by blast
qed

theorem update_without_fields_rejected_witness:
  "\<not> supplied (JObject [(''id'', JString ''s1''), (''sessionId'', JString ''s1'')]) ''language''
   \<and> \<not> supplied (JObject [(''id'', JString ''s1''), (''sessionId'', JString ''s1'')]) ''tone''
   \<and> updateSession (JObject [(''id'', JString ''s1''), (''sessionId'', JString ''s1'')])
        alice clock example_store
      = (Inl (ActionInputError [custom ''At least one field must be provided to update.'']),
         example_store)
   \<and> updateVariant (JObject [(''id'', JString ''s1''), (''sessionId'', JString ''s1'')])
        alice clock example_store
      = (Inl (ActionInputError [custom ''At least one field must be provided to update.'']),
         example_store)"
proof -
  let ?raw = "JObject [(''id'', JString ''s1''), (''sessionId'', JString ''s1'')]"
  have ns: "\<not> supplied ?raw ''language''" "\<not> supplied ?raw ''context''"
    "\<not> supplied ?raw ''originalText''" "\<not> supplied ?raw ''tone''"
    "\<not> supplied ?raw ''complexity''" "\<not> supplied ?raw ''variantLabel''"
    "\<not> supplied ?raw ''content''" "\<not> supplied ?raw ''isFavorite''"
    by (simp_all add: supplied_def property_def)
  have shape: "\<exists>fs i. ?raw = JObject fs \<and> property fs ''id'' = JString i \<and> i \<noteq> []"
    "\<exists>fs i j. ?raw = JObject fs \<and> property fs ''id'' = JString i \<and> i \<noteq> []
               \<and> property fs ''sessionId'' = JString j \<and> j \<noteq> []"
    by (simp_all add: property_def)
  from update_without_fields_rejected [of ?raw alice clock example_store] ns shape
  show ?thesis by blast
qed







section \<open>Favourites\<close>

lemma key_absent:
  assumes "k \<notin> set (map f xs)"
  shows "filter (\<lambda>r. f r = k) xs = []"
    and "map (\<lambda>r. if f r = k then g r else r) xs = xs"
  using assms by (induction xs) auto

lemma createVariant_handler_owned:
  assumes "requireUser ctx = Inr U" and "getOwnedSession (cv_sessionId inp) (user_id U) st = Inr s"
    and "randomUUID e \<notin> set (map var_id (RephraseVariants st))"
  shows "createVariant_handler inp ctx e st =
     (Inr (VariantData (Some (variant_readback
        \<lparr>var_id = randomUUID e, var_sessionId = cv_sessionId inp, var_tone = cv_tone inp,
         var_complexity = cv_complexity inp, var_variantLabel = cv_variantLabel inp,
         var_content = cv_content inp,
         var_isFavorite = (case cv_isFavorite inp of None \<Rightarrow> False | Some b \<Rightarrow> b),
         var_createdAt = now e\<rparr>))),
      st\<lparr>RephraseVariants := RephraseVariants st @
        [variant_readback
          \<lparr>var_id = randomUUID e, var_sessionId = cv_sessionId inp, var_tone = cv_tone inp,
           var_complexity = cv_complexity inp, var_variantLabel = cv_variantLabel inp,
           var_content = cv_content inp,
           var_isFavorite = (case cv_isFavorite inp of None \<Rightarrow> False | Some b \<Rightarrow> b),
           var_createdAt = now e\<rparr>]\<rparr>)"
  using assms by (simp add: createVariant_handler_def db_insert_def first_def)

text \<open>
  C9, as the code has it. The caller owns session \<open>s\<close>. listVariants with
  \<open>favoritesOnly = true\<close> returns exactly the variants of the session whose \<open>isFavorite\<close> is
  true, in table order, and their number as \<open>total\<close>. A variant created without
  \<open>isFavorite\<close> has \<open>isFavorite = false\<close> and is not in that list, which is the list from
  before the creation. After updateVariant sets \<open>isFavorite\<close> to true on the new variant, the
  list is the previous favourites of the session followed by the updated variant: exactly
  that variant when the session had no favourite before. The generated variant id is taken
  to be new to the table.
\<close>

theorem favorites_after_create_and_update:
  assumes "requireUser ctx = Inr U"
    and "s \<in> set (RephraseSessions st)" and "sess_userId s = user_id U"
    and "createVariant_schema rawc = Inr ci"
    and "cv_sessionId ci = sess_id s" and "cv_isFavorite ci = None"
    and "randomUUID e \<notin> set (map var_id (RephraseVariants st))"
    and "updateVariant_schema rawu = Inr ui"
    and "uv_id ui = randomUUID e" and "uv_sessionId ui = sess_id s"
    and "uv_isFavorite ui = Some True"
    and "listVariants_schema rawl = Inr li"
    and "lv_sessionId li = sess_id s" and "lv_favoritesOnly li = True"
  shows "\<exists>favs v st1 v' st2.
            favs = filter (\<lambda>r. var_sessionId r = sess_id s \<and> var_isFavorite r) (RephraseVariants st)
          \<and> listVariants rawl ctx e0 st = (Inr (VariantItems favs (length favs)), st)
          \<and> createVariant rawc ctx e st = (Inr (VariantData (Some v)), st1)
          \<and> var_id v = randomUUID e \<and> var_isFavorite v = False
          \<and> listVariants rawl ctx e1 st1 = (Inr (VariantItems favs (length favs)), st1)
          \<and> v \<notin> set favs
          \<and> updateVariant rawu ctx e2 st1 = (Inr (VariantData (Some v')), st2)
          \<and> v' = updateVariant_set ui v \<and> var_isFavorite v' = True
          \<and> listVariants rawl ctx e3 st2 =
              (Inr (VariantItems (favs @ [v']) (length favs + 1)), st2)
          \<and> (favs = [] \<longrightarrow>
              listVariants rawl ctx e3 st2 = (Inr (VariantItems [v'] 1), st2))"
proof -
  let ?rows = "RephraseVariants st"
  let ?fav = "\<lambda>r. var_sessionId r = sess_id s \<and> var_isFavorite r"
  let ?favs = "filter ?fav ?rows"
  let ?v = "variant_readback
        \<lparr>var_id = randomUUID e, var_sessionId = cv_sessionId ci, var_tone = cv_tone ci,
         var_complexity = cv_complexity ci, var_variantLabel = cv_variantLabel ci,
         var_content = cv_content ci,
         var_isFavorite = (case cv_isFavorite ci of None \<Rightarrow> False | Some b \<Rightarrow> b),
         var_createdAt = now e\<rparr>"
  let ?st1 = "st\<lparr>RephraseVariants := ?rows @ [?v]\<rparr>"
  let ?v' = "updateVariant_set ui ?v"
  let ?st2 = "?st1\<lparr>RephraseVariants := ?rows @ [?v']\<rparr>"
  have own: "\<exists>s'. getOwnedSession (sess_id s) (user_id U) st0 = Inr s'"
    if "RephraseSessions st0 = RephraseSessions st" for st0
    using getOwnedSession_owned [of s st0 "sess_id s" "user_id U"] assms(2,3) that by simp
  have lst: "listVariants rawl ctx e' st0 =
      (Inr (VariantItems (filter ?fav (RephraseVariants st0))
             (length (filter ?fav (RephraseVariants st0)))), st0)"
    if eq: "RephraseSessions st0 = RephraseSessions st" for st0 e'
  proof -
    obtain s' where "getOwnedSession (lv_sessionId li) (user_id U) st0 = Inr s'"
      using own [OF eq] assms(13) by auto
    from listVariants_handler_owned [OF assms(1) this] assms(12,13,14)
    show ?thesis by (simp add: listVariants_def defineAction_def)
  qed
  have l0: "listVariants rawl ctx e0 st = (Inr (VariantItems ?favs (length ?favs)), st)"
    by (rule lst) simp
  obtain s0 where o0: "getOwnedSession (cv_sessionId ci) (user_id U) st = Inr s0"
    using own [of st] assms(5) by auto
  have c: "createVariant rawc ctx e st = (Inr (VariantData (Some ?v)), ?st1)"
    using assms(4) createVariant_handler_owned [OF assms(1) o0 assms(7)]
    by (simp add: createVariant_def defineAction_def)
  have vf: "var_id ?v = randomUUID e" "var_isFavorite ?v = False"
    using assms(6) by (simp_all add: variant_readback_frame)
  have l1: "listVariants rawl ctx e1 ?st1 = (Inr (VariantItems ?favs (length ?favs)), ?st1)"
    using lst [of ?st1 e1] vf(2) by simp
  have notin: "?v \<notin> set ?favs"
    using vf(2) by auto
  obtain s1 where o1: "getOwnedSession (uv_sessionId ui) (user_id U) ?st1 = Inr s1"
    using own [of ?st1] assms(10) by auto
  have none: "filter (\<lambda>r. var_id r = randomUUID e) ?rows = []"
    and same: "map (\<lambda>r. if var_id r = randomUUID e then updateVariant_set ui r else r) ?rows = ?rows"
    using key_absent [OF assms(7)] by blast+
  have none2: "filter (\<lambda>r. var_id r = randomUUID e \<and> var_sessionId r = sess_id s) ?rows = []"
    using assms(7) by (intro filter_key_absent)
  have hu: "updateVariant_handler ui ctx e2 ?st1 = (Inr (VariantData (Some ?v')), ?st2)"
    unfolding updateVariant_handler_owned [OF assms(1) o1]
    using assms(5,9,10) none none2 same by (simp add: first_def variant_readback_frame)
  have u: "updateVariant rawu ctx e2 ?st1 = (Inr (VariantData (Some ?v')), ?st2)"
    using assms(8) by (simp add: updateVariant_def defineAction_def hu)
  have v'f: "var_isFavorite ?v' = True" "var_sessionId ?v' = sess_id s"
    using assms(5,11)
    by (simp_all add: updateVariant_set_def variant_readback_def Let_def split: option.splits)
  have l2: "listVariants rawl ctx e3 ?st2 =
      (Inr (VariantItems (?favs @ [?v']) (length ?favs + 1)), ?st2)"
    using lst [of ?st2 e3] v'f by simp
  have l3: "?favs = [] \<longrightarrow> listVariants rawl ctx e3 ?st2 = (Inr (VariantItems [?v'] 1), ?st2)"
    using l2 by simp
  from l0 c vf l1 notin u v'f(1) l2 l3 show ?thesis by blast
qed

theorem favorites_after_create_and_update_witness:
  "requireUser alice = Inr \<lparr>user_id = ''alice''\<rparr>
   \<and> session2 \<in> set (RephraseSessions example_store)
   \<and> randomUUID clock \<notin> set (map var_id (RephraseVariants example_store))
   \<and> (\<exists>v st1 v' st2.
         createVariant (JObject [(''sessionId'', JString ''s2''), (''content'', JString ''Variant A'')])
           alice clock example_store = (Inr (VariantData (Some v)), st1)
       \<and> var_isFavorite v = False
       \<and> listVariants (JObject [(''sessionId'', JString ''s2''), (''favoritesOnly'', JBoolean True)])
           alice clock st1 = (Inr (VariantItems [] 0), st1)
       \<and> updateVariant (JObject [(''id'', JString ''v2''), (''sessionId'', JString ''s2''),
                                  (''isFavorite'', JBoolean True)])
           alice clock st1 = (Inr (VariantData (Some v')), st2)
       \<and> listVariants (JObject [(''sessionId'', JString ''s2''), (''favoritesOnly'', JBoolean True)])
           alice clock st2 = (Inr (VariantItems [v'] 1), st2))"
proof -
  let ?ci = "\<lparr>cv_sessionId = ''s2'', cv_tone = None, cv_complexity = None, cv_variantLabel = None,
              cv_content = ''Variant A'', cv_isFavorite = None\<rparr>"
  let ?ui = "\<lparr>uv_id = ''v2'', uv_sessionId = ''s2'', uv_tone = None, uv_complexity = None,
              uv_variantLabel = None, uv_content = None, uv_isFavorite = Some True\<rparr>"
  let ?li = "\<lparr>lv_sessionId = ''s2'', lv_favoritesOnly = True\<rparr>"
  have h1: "requireUser alice = Inr \<lparr>user_id = ''alice''\<rparr>"
    by (simp add: requireUser_def example_defs)
  have h2: "session2 \<in> set (RephraseSessions example_store)"
    and h3: "sess_userId session2 = user_id \<lparr>user_id = ''alice''\<rparr>"
    and h7: "randomUUID clock \<notin> set (map var_id (RephraseVariants example_store))"
    by (simp_all add: example_defs)
  have h4: "createVariant_schema
        (JObject [(''sessionId'', JString ''s2''), (''content'', JString ''Variant A'')]) = Inr ?ci"
    and h8: "updateVariant_schema (JObject [(''id'', JString ''v2''), (''sessionId'', JString ''s2''),
                                  (''isFavorite'', JBoolean True)]) = Inr ?ui"
    and h12: "listVariants_schema
        (JObject [(''sessionId'', JString ''s2''), (''favoritesOnly'', JBoolean True)]) = Inr ?li"
    by (simp_all add: schema_defs)
  have h5: "cv_sessionId ?ci = sess_id session2" and h6: "cv_isFavorite ?ci = None"
    and h9: "uv_id ?ui = randomUUID clock" and h10: "uv_sessionId ?ui = sess_id session2"
    and h11: "uv_isFavorite ?ui = Some True"
    and h13: "lv_sessionId ?li = sess_id session2" and h14: "lv_favoritesOnly ?li = True"
    by (simp_all add: example_defs)
  have nofav: "filter (\<lambda>r. var_sessionId r = sess_id session2 \<and> var_isFavorite r)
      (RephraseVariants example_store) = []"
    by (simp add: example_defs)
  from favorites_after_create_and_update [OF h1 h2 h3 h4 h5 h6 h7 h8 h9 h10 h11 h12 h13 h14,
      where ?e0.0 = clock and ?e1.0 = clock and ?e2.0 = clock and ?e3.0 = clock]
  obtain favs v st1 v' st2 where
    f: "favs = filter (\<lambda>r. var_sessionId r = sess_id session2 \<and> var_isFavorite r)
          (RephraseVariants example_store)"
    and c: "createVariant
          (JObject [(''sessionId'', JString ''s2''), (''content'', JString ''Variant A'')])
          alice clock example_store = (Inr (VariantData (Some v)), st1)"
    and nf: "var_isFavorite v = False"
    and l1: "listVariants
          (JObject [(''sessionId'', JString ''s2''), (''favoritesOnly'', JBoolean True)])
          alice clock st1 = (Inr (VariantItems favs (length favs)), st1)"
    and u: "updateVariant (JObject [(''id'', JString ''v2''), (''sessionId'', JString ''s2''),
                                  (''isFavorite'', JBoolean True)])
          alice clock st1 = (Inr (VariantData (Some v')), st2)"
    and l3: "favs = [] \<longrightarrow> listVariants
          (JObject [(''sessionId'', JString ''s2''), (''favoritesOnly'', JBoolean True)])
          alice clock st2 = (Inr (VariantItems [v'] 1), st2)"
    by blast
  have e: "favs = []"
    using f nofav by simp
  have l1': "listVariants
          (JObject [(''sessionId'', JString ''s2''), (''favoritesOnly'', JBoolean True)])
          alice clock st1 = (Inr (VariantItems [] 0), st1)"
    using l1 e by simp
  have l3': "listVariants
          (JObject [(''sessionId'', JString ''s2''), (''favoritesOnly'', JBoolean True)])
          alice clock st2 = (Inr (VariantItems [v'] 1), st2)"
    using l3 e by simp
  from c nf l1' u l3' have "\<exists>v st1 v' st2.
         createVariant (JObject [(''sessionId'', JString ''s2''), (''content'', JString ''Variant A'')])
           alice clock example_store = (Inr (VariantData (Some v)), st1)
       \<and> var_isFavorite v = False
       \<and> listVariants (JObject [(''sessionId'', JString ''s2''), (''favoritesOnly'', JBoolean True)])
           alice clock st1 = (Inr (VariantItems [] 0), st1)
       \<and> updateVariant (JObject [(''id'', JString ''v2''), (''sessionId'', JString ''s2''),
                                  (''isFavorite'', JBoolean True)])
           alice clock st1 = (Inr (VariantData (Some v')), st2)
       \<and> listVariants (JObject [(''sessionId'', JString ''s2''), (''favoritesOnly'', JBoolean True)])
           alice clock st2 = (Inr (VariantItems [v'] 1), st2)"
    by blast
  with h1 h2 h7 show ?thesis by blast
qed

text \<open>
  C9 as stated fails where the session already has a favourite: in session \<open>s1\<close> of the
  example store, creating a variant and marking it favourite makes the favourites list two
  variants long, not exactly the new one.
\<close>

theorem favorites_list_counterexample:
  "fst (listVariants (JObject [(''sessionId'', JString ''s1''), (''favoritesOnly'', JBoolean True)])
         alice clock
         (snd (updateVariant (JObject [(''id'', JString ''v2''), (''sessionId'', JString ''s1''),
                                       (''isFavorite'', JBoolean True)])
                 alice clock
                 (snd (createVariant (JObject [(''sessionId'', JString ''s1''),
                                               (''content'', JString ''Variant A'')])
                         alice clock example_store)))))
   = Inr (VariantItems
       [variant1,
        \<lparr>var_id = ''v2'', var_sessionId = ''s1'', var_tone = None, var_complexity = None,
         var_variantLabel = None, var_content = ''Variant A'', var_isFavorite = True,
         var_createdAt = 7\<rparr>] 2)"
  by (simp add: action_defs schema_defs example_defs)

section \<open>Stored text and the primary keys\<close>

lemma updateSession_set_id: "sess_id (updateSession_set inp d r) = sess_id r"
  by (simp add: updateSession_set_def Let_def split: option.splits)

lemma wf_store_empty: "wf_store empty_store"
  by (simp add: wf_store_def empty_store_def)

lemma wf_store_handlers:
  assumes "wf_store st"
  shows "wf_store (snd (createSession_handler i1 ctx e st))"
    and "wf_store (snd (updateSession_handler i2 ctx e st))"
    and "wf_store (snd (listSessions_handler i3 ctx e st))"
    and "wf_store (snd (createVariant_handler i4 ctx e st))"
    and "wf_store (snd (updateVariant_handler i5 ctx e st))"
    and "wf_store (snd (deleteVariant_handler i6 ctx e st))"
    and "wf_store (snd (listVariants_handler i7 ctx e st))"
proof -
  have ds: "distinct (map sess_id (RephraseSessions st))"
    and dv: "distinct (map var_id (RephraseVariants st))"
    using assms by (simp_all add: wf_store_def)
  have ms: "map (sess_id \<circ> (\<lambda>r. if sess_id r = k then updateSession_set i2 d r else r)) rows
      = map sess_id rows" for k d rows
    by (simp add: updateSession_set_id o_def cong: map_cong)
  have mv: "map (var_id \<circ> (\<lambda>r. if var_id r = k then updateVariant_set i5 r else r)) rows
      = map var_id rows" for k rows
    by (simp add: updateVariant_set_frame o_def cong: map_cong)
  show "wf_store (snd (createSession_handler i1 ctx e st))"
    using ds dv
    by (simp add: createSession_handler_def db_insert_def wf_store_def session_readback_frame
        Let_def split: sum.splits)
  show "wf_store (snd (updateSession_handler i2 ctx e st))"
    using ds dv
    by (simp add: updateSession_handler_def db_update_def wf_store_def ms split: sum.splits)
  show "wf_store (snd (listSessions_handler i3 ctx e st))"
    using assms by (simp add: listSessions_handler_def Let_def split: sum.splits)
  show "wf_store (snd (createVariant_handler i4 ctx e st))"
    using ds dv
    by (simp add: createVariant_handler_def db_insert_def wf_store_def variant_readback_frame
        split: sum.splits)
  show "wf_store (snd (updateVariant_handler i5 ctx e st))"
    using ds dv
    by (simp add: updateVariant_handler_def db_update_def wf_store_def mv
        split: sum.splits option.splits)
  show "wf_store (snd (deleteVariant_handler i6 ctx e st))"
    using ds dv
    by (simp add: deleteVariant_handler_def db_delete_def wf_store_def distinct_map_filter
        split: sum.splits)
  show "wf_store (snd (listVariants_handler i7 ctx e st))"
    using assms by (simp add: listVariants_handler_def Let_def split: sum.splits)
qed

lemma wf_store_server: "wf_store st \<Longrightarrow> wf_store (snd (server op raw ctx e st))"
  by (cases op)
    (simp_all add: createSession_def updateSession_def listSessions_def createVariant_def
      updateVariant_def deleteVariant_def listVariants_def defineAction_cases wf_store_handlers)

lemma reachable_wf_store: "reachable st \<Longrightarrow> wf_store st"
  by (induction rule: reachable.induct) (simp_all add: wf_store_empty wf_store_server)

text \<open>
  The two creating operations accept only non-empty text, and store it as it is read back.
\<close>

lemma createSession_stores_readback:
  assumes "createSession raw ctx e st = (Inr d, st')"
  shows "\<exists>r t. RephraseSessions st' = RephraseSessions st @ [r] \<and> t \<noteq> []
             \<and> sess_originalText r = read_text t
             \<and> RephraseVariants st' = RephraseVariants st"
proof (cases "createSession_schema raw")
  case (Inl iss)
  with assms show ?thesis by (simp add: createSession_def defineAction_def)
next
  case (Inr inp)
  then have "createSession_object raw = ([], Some inp)"
    by (simp add: createSession_schema_def safeParse_Inr)
  then have "cs_originalText inp \<noteq> []"
    by (auto simp: createSession_object_def z_string_min_def aborted_def parsed_value_def Let_def
        split: json.splits if_splits)
  with assms Inr show ?thesis
    by (auto simp: createSession_def defineAction_def createSession_handler_def db_insert_def
        session_readback_def Let_def split: sum.splits if_splits)
qed

lemma createVariant_stores_readback:
  assumes "createVariant raw ctx e st = (Inr d, st')"
  shows "\<exists>r t. RephraseVariants st' = RephraseVariants st @ [r] \<and> t \<noteq> []
             \<and> var_content r = read_text t
             \<and> RephraseSessions st' = RephraseSessions st"
proof (cases "createVariant_schema raw")
  case (Inl iss)
  with assms show ?thesis by (simp add: createVariant_def defineAction_def)
next
  case (Inr inp)
  then have "createVariant_object raw = ([], Some inp)"
    by (simp add: createVariant_schema_def safeParse_Inr)
  then have "cv_content inp \<noteq> []"
    by (auto simp: createVariant_object_def z_string_min_def aborted_def parsed_value_def Let_def
        split: json.splits if_splits)
  with assms Inr show ?thesis
    by (auto simp: createVariant_def defineAction_def createVariant_handler_def db_insert_def
        variant_readback_def split: sum.splits if_splits)
qed

text \<open>
  C3 fails on the code. Starting from the empty store, a user creates a session and a
  variant of it, then calls updateSession with \<open>originalText = ""\<close> and updateVariant with
  \<open>content = ""\<close>. Both updates succeed and the store then holds a session whose
  \<open>originalText\<close> is empty and a variant whose \<open>content\<close> is empty: the update schemas declare
  these fields \<^verbatim>\<open>z.string().optional()\<close>, without the \<^verbatim>\<open>min(1)\<close> the create schemas have.
\<close>

theorem update_stores_empty_text:
  "(let st1 = snd (createSession (JObject [(''originalText'', JString ''Hello world'')])
                     alice \<lparr>randomUUID = ''s1'', now = 1\<rparr> empty_store);
        st2 = snd (createVariant (JObject [(''sessionId'', JString ''s1''),
                                           (''content'', JString ''Variant A'')])
                     alice \<lparr>randomUUID = ''v1'', now = 2\<rparr> st1);
        r3 = updateSession (JObject [(''id'', JString ''s1''), (''originalText'', JString '''')])
               alice \<lparr>randomUUID = ''x'', now = 3\<rparr> st2;
        r4 = updateVariant (JObject [(''id'', JString ''v1''), (''sessionId'', JString ''s1''),
                                     (''content'', JString '''')])
               alice \<lparr>randomUUID = ''y'', now = 4\<rparr> (snd r3)
    in fst r3 = Inr (SessionData (Some
                  \<lparr>sess_id = ''s1'', sess_userId = ''alice'', sess_language = None,
                   sess_context = None, sess_originalText = '''',
                   sess_createdAt = 1, sess_updatedAt = 3\<rparr>))
     \<and> fst r4 = Inr (VariantData (Some
                  \<lparr>var_id = ''v1'', var_sessionId = ''s1'', var_tone = None,
                   var_complexity = None, var_variantLabel = None, var_content = '''',
                   var_isFavorite = False, var_createdAt = 2\<rparr>))
     \<and> map sess_originalText (RephraseSessions (snd r4)) = ['''']
     \<and> map var_content (RephraseVariants (snd r4)) = [''''])"
  by (simp add: action_defs schema_defs example_defs)

lemma empty_text_store_reachable:
  "reachable
     (snd (updateVariant (JObject [(''id'', JString ''v1''), (''sessionId'', JString ''s1''),
                                     (''content'', JString '''')])
               alice \<lparr>randomUUID = ''y'', now = 4\<rparr>
        (snd (updateSession (JObject [(''id'', JString ''s1''), (''originalText'', JString '''')])
               alice \<lparr>randomUUID = ''x'', now = 3\<rparr>
          (snd (createVariant (JObject [(''sessionId'', JString ''s1''),
                                           (''content'', JString ''Variant A'')])
                     alice \<lparr>randomUUID = ''v1'', now = 2\<rparr>
            (snd (createSession (JObject [(''originalText'', JString ''Hello world'')])
                     alice \<lparr>randomUUID = ''s1'', now = 1\<rparr> empty_store))))))))"
  using reachable.step [where op = UpdateVariant, OF
      reachable.step [where op = UpdateSession, OF
        reachable.step [where op = CreateVariant, OF
          reachable.step [where op = CreateSession, OF reachable.init]]]]
  by simp

section \<open>A variant stays in its session\<close>

text \<open>
  No operation moves a stored variant: a variant that is in the table before a call and a
  variant with the same id that is in the table after it have the same \<open>sessionId\<close> and the
  same \<open>createdAt\<close>.
\<close>

lemma variants_after_call:
  "RephraseVariants (snd (server op raw ctx e st)) = RephraseVariants st
   \<or> (\<exists>v. RephraseVariants (snd (server op raw ctx e st)) = RephraseVariants st @ [v]
          \<and> var_id v \<notin> set (map var_id (RephraseVariants st)))
   \<or> (\<exists>inp. RephraseVariants (snd (server op raw ctx e st)) =
          map (\<lambda>r. if var_id r = uv_id inp then updateVariant_set inp r else r)
            (RephraseVariants st))
   \<or> (\<exists>p. RephraseVariants (snd (server op raw ctx e st)) = filter p (RephraseVariants st))"
proof (cases op)
  case CreateSession
  then show ?thesis
    by (simp add: createSession_def defineAction_cases createSession_handler_def db_insert_def
        Let_def split: sum.splits)
next
  case UpdateSession
  then show ?thesis
    by (simp add: updateSession_def defineAction_cases updateSession_handler_def db_update_def
        split: sum.splits)
next
  case ListSessions
  then show ?thesis
    by (simp add: listSessions_def defineAction_cases listSessions_handler_def Let_def
        split: sum.splits)
next
  case CreateVariant
  then show ?thesis
    by (simp add: createVariant_def defineAction_cases createVariant_handler_def db_insert_def
        variant_readback_frame split: sum.splits)
next
  case UpdateVariant
  then show ?thesis
    by (auto simp: updateVariant_def defineAction_cases updateVariant_handler_def db_update_def
        split: sum.splits option.splits)
next
  case DeleteVariant
  then show ?thesis
    by (auto simp: deleteVariant_def defineAction_cases deleteVariant_handler_def db_delete_def
        split: sum.splits)
next
  case ListVariants
  then show ?thesis
    by (simp add: listVariants_def defineAction_cases listVariants_handler_def Let_def
        split: sum.splits)
qed

lemma variant_never_moved:
  assumes "wf_store st" and "r \<in> set (RephraseVariants st)"
    and "r' \<in> set (RephraseVariants (snd (server op raw ctx e st)))"
    and "var_id r' = var_id r"
  shows "var_sessionId r' = var_sessionId r \<and> var_createdAt r' = var_createdAt r"
proof -
  have inj: "inj_on var_id (set (RephraseVariants st))"
    using assms(1) by (simp add: wf_store_def distinct_map)
  have same: "r0 = r" if "r0 \<in> set (RephraseVariants st)" "var_id r0 = var_id r" for r0
    using inj that assms(2) by (auto dest: inj_onD)
  from variants_after_call [of op raw ctx e st] consider
      "RephraseVariants (snd (server op raw ctx e st)) = RephraseVariants st"
    | v where "RephraseVariants (snd (server op raw ctx e st)) = RephraseVariants st @ [v]"
        "var_id v \<notin> set (map var_id (RephraseVariants st))"
    | inp where "RephraseVariants (snd (server op raw ctx e st)) =
          map (\<lambda>r. if var_id r = uv_id inp then updateVariant_set inp r else r)
            (RephraseVariants st)"
    | p where "RephraseVariants (snd (server op raw ctx e st)) = filter p (RephraseVariants st)"
    by blast
  then show ?thesis
  proof cases
    case 1
    with assms(3,4) same show ?thesis by auto
  next
    case 2
    with assms(2,3,4) same show ?thesis by auto
  next
    case 3
    with assms(3) obtain r0 where r0: "r0 \<in> set (RephraseVariants st)"
      and r': "r' = (if var_id r0 = uv_id inp then updateVariant_set inp r0 else r0)"
      by auto
    from r' have "var_id r' = var_id r0" "var_sessionId r' = var_sessionId r0"
      "var_createdAt r' = var_createdAt r0"
      by (simp_all add: updateVariant_set_frame)
    with same [OF r0] assms(4) show ?thesis by simp
  next
    case 4
    with assms(3,4) same show ?thesis by auto
  qed
qed

end
